theory Spec2Isabelle
  imports Main
begin

section \<open>Failures as values\<close>

text \<open>
  The server is C code on top of GLib, libsoup and GStreamer. Four ways in which a
  call can go wrong are values of the model:
  \<^item> \<open>NullDeref\<close>: the code dereferences a pointer that is \<open>NULL\<close>
    (for instance \<open>*handlerid\<close> where the object data was never set);
  \<^item> \<open>OutOfBounds\<close>: the code reads a byte that lies outside the chunk
    \<open>[start, end)\<close> it was given;
  \<^item> \<open>UninitialisedRead\<close>: the code reads a local variable that no statement has
    assigned on the path taken;
  \<^item> \<open>UseAfterFree\<close>: the code reads a string after the call that released it.

  A GLib or libsoup function that is called against its documented precondition (a
  \<open>NULL\<close> hash table, a \<open>NULL\<close> date, a \<open>NULL\<close> object) is not a failure
  of this kind: its \<open>g_return_val_if_fail\<close> logs a critical message and returns a fixed
  value, and the caller goes on with that value. The model gives each such call the value
  it returns; the log is not part of the state.
\<close>

datatype error = NullDeref | OutOfBounds | UninitialisedRead | UseAfterFree

definition ebind :: "error + 'a \<Rightarrow> ('a \<Rightarrow> error + 'b) \<Rightarrow> error + 'b" where
  "ebind m f = (case m of Inl e \<Rightarrow> Inl e | Inr v \<Rightarrow> f v)"

lemma ebind_Inl [simp]: "ebind (Inl e) f = Inl e"
  by (simp add: ebind_def)

lemma ebind_Inr [simp]: "ebind (Inr v) f = f v"
  by (simp add: ebind_def)

lemma ebind_cong [fundef_cong]:
  "m = m' \<Longrightarrow> (\<And>v. m' = Inr v \<Longrightarrow> f v = f' v) \<Longrightarrow> ebind m f = ebind m' f'"
  by (cases m') (simp_all add: ebind_def)

lemma ebind_eq_Inr:
  "ebind m f = Inr r \<longleftrightarrow> (\<exists>v. m = Inr v \<and> f v = Inr r)"
  by (cases m) simp_all

section \<open>Bytes, C strings and \<open>memchr\<close>\<close>

text \<open>
  A chunk is the byte sequence \<open>[start, end)\<close>; a pointer into it is its offset
  from \<open>start\<close> (an \<open>int\<close>, since the code also forms \<open>b - 2\<close>), and a
  possibly-\<open>NULL\<close> pointer is an \<open>int option\<close>.
\<close>

definition CR :: char where "CR = CHR 0x0D"
definition LF :: char where "LF = CHR 0x0A"
definition NUL :: char where "NUL = CHR 0x00"
definition DASH :: char where "DASH = CHR ''-''"

definition rd :: "string \<Rightarrow> int \<Rightarrow> error + char" where
  "rd mem i = (if 0 \<le> i \<and> i < int (length mem) then Inr (mem ! nat i) else Inl OutOfBounds)"

text \<open>
  \<open>memchr (s, ch, n)\<close> reads its \<open>n\<close> bytes one after the other and stops at the
  first match. \<open>n\<close> is a \<open>size_t\<close>: a negative count is a huge one, which never
  runs out before the memory does.
\<close>

fun memchr_from :: "string \<Rightarrow> char \<Rightarrow> int \<Rightarrow> int \<Rightarrow> error + int option" where
  "memchr_from [] ch n p = (if n = 0 then Inr None else Inl OutOfBounds)"
| "memchr_from (x # xs) ch n p =
     (if n = 0 then Inr None
      else if x = ch then Inr (Some p)
      else memchr_from xs ch (n - 1) (p + 1))"

definition memchr :: "string \<Rightarrow> int \<Rightarrow> char \<Rightarrow> int \<Rightarrow> error + int option" where
  "memchr mem s ch n =
     (if n = 0 then Inr None
      else if s < 0 then Inl OutOfBounds
      else memchr_from (drop (nat s) mem) ch n s)"

text \<open>
  The C string at an address ends at the first \<open>NUL\<close> byte; \<open>strlen\<close> of a
  chunk position with no \<open>NUL\<close> before \<open>end\<close> reads past the chunk.
\<close>

fun cstr :: "string \<Rightarrow> error + string" where
  "cstr [] = Inl OutOfBounds"
| "cstr (x # xs) =
     (if x = NUL then Inr []
      else (case cstr xs of Inl e \<Rightarrow> Inl e | Inr s \<Rightarrow> Inr (x # s)))"

definition cstr_at :: "string \<Rightarrow> int \<Rightarrow> error + string" where
  "cstr_at mem i = (if 0 \<le> i then cstr (drop (nat i) mem) else Inl OutOfBounds)"

text \<open>
  GLib's \<open>g_str_has_prefix (str, prefix)\<close>: does \<open>str\<close> begin with \<open>prefix\<close>?
  (\<open>strlen\<close> of both, then \<open>strncmp\<close> over the length of \<open>prefix\<close>.)
\<close>

definition g_str_has_prefix :: "string \<Rightarrow> string \<Rightarrow> bool" where
  "g_str_has_prefix str pre = (length pre \<le> length str \<and> take (length pre) str = pre)"

text \<open>
  GLib's \<open>g_utf8_strlen (p, -1)\<close> counts characters: it steps over each character by
  the length its first byte announces (the table \<open>g_utf8_skip\<close>). A last character cut
  short ends the count here.
\<close>

definition g_utf8_skip :: "char \<Rightarrow> nat" where
  "g_utf8_skip c =
     (let v = (of_char c :: nat) in
      if v < 0xC0 then 1 else if v < 0xE0 then 2 else if v < 0xF0 then 3
      else if v < 0xF8 then 4 else if v < 0xFC then 5 else if v < 0xFE then 6 else 1)"

fun g_utf8_strlen :: "string \<Rightarrow> nat" where
  "g_utf8_strlen [] = 0"
| "g_utf8_strlen (c # cs) = Suc (g_utf8_strlen (drop (g_utf8_skip c - 1) cs))"

section \<open>\<open>find_content_part\<close>\<close>

text \<open>
  The body of the boundary loop, for \<open>b\<close> pointing at a \<open>'-'\<close>. The two results
  are \<open>*content_start\<close> and \<open>*content_end\<close>. \<open>&&\<close> and \<open>||\<close> evaluate their
  right operand only when the left one does not decide.
\<close>

definition boundary_body ::
  "string \<Rightarrow> string \<Rightarrow> int \<Rightarrow> int option \<times> int option \<Rightarrow> error + (int option \<times> int option)" where
  "boundary_body mem boundary b acc =
     (let boundary_len = int (g_utf8_strlen boundary) in
      ebind (rd mem (b + 1)) (\<lambda>b1.
      ebind (if b1 \<noteq> DASH then Inr True
             else ebind (cstr_at mem (b + 2)) (\<lambda>s. Inr (g_str_has_prefix boundary s))) (\<lambda>skip.
      if skip then Inr acc
      else
      ebind (if b = 0 then Inr True
             else ebind (rd mem (b - 1)) (\<lambda>p1.
                  if p1 \<noteq> LF then Inr False
                  else ebind (rd mem (b - 2)) (\<lambda>p2. Inr (p2 = CR)))) (\<lambda>line_start.
      if \<not> line_start then Inr acc
      else
      ebind (rd mem (b + boundary_len + 2)) (\<lambda>x.
      ebind (if x = DASH then ebind (rd mem (b + boundary_len + 3)) (\<lambda>y. Inr (y = DASH))
             else Inr False) (\<lambda>terminal.
      if terminal then Inr (fst acc, Some (b - 2))
      else
      ebind (if x = CR then ebind (rd mem (b + boundary_len + 3)) (\<lambda>y. Inr (y = LF))
             else Inr False) (\<lambda>part.
      if part then Inr (Some (b + boundary_len + 3), snd acc)
      else Inr acc)))))))"

lemma memchr_from_ge: "memchr_from xs ch n p = Inr (Some q) \<Longrightarrow> p \<le> q"
proof (induction xs arbitrary: n p)
  case Nil
  then show ?case by (simp split: if_splits)
next
  case (Cons x xs)
  show ?case
  proof (cases "n = 0 \<or> x = ch")
    case True
    with Cons.prems show ?thesis by (auto split: if_splits)
  next
    case False
    with Cons.prems have "memchr_from xs ch (n - 1) (p + 1) = Inr (Some q)" by simp
    from Cons.IH [OF this] show ?thesis by simp
  qed
qed

lemma memchr_ge: "memchr mem s ch n = Inr (Some q) \<Longrightarrow> s \<le> q"
  by (auto simp: memchr_def split: if_splits dest: memchr_from_ge)

text \<open>
  The boundary loop: \<open>for (b = memchr (start, '-', end - start); b && b + boundary_len
  + 4 < end; b = memchr (b + 2, '-', end - (b + 2)))\<close>. The function is entered with
  the current \<open>b\<close>; \<open>continue\<close> and the end of the body both go to the increment.
\<close>

function boundary_loop ::
  "string \<Rightarrow> string \<Rightarrow> int option \<times> int option \<Rightarrow> int option \<Rightarrow> error + (int option \<times> int option)" where
  "boundary_loop mem boundary acc b =
     (case b of
        None \<Rightarrow> Inr acc
      | Some p \<Rightarrow>
          if p + int (g_utf8_strlen boundary) + 4 < int (length mem) then
            (case boundary_body mem boundary p acc of
               Inl e \<Rightarrow> Inl e
             | Inr acc' \<Rightarrow>
                 (case memchr mem (p + 2) DASH (int (length mem) - (p + 2)) of
                    Inl e \<Rightarrow> Inl e
                  | Inr b' \<Rightarrow> boundary_loop mem boundary acc' b'))
          else Inr acc)"
  by pat_completeness auto
termination
proof (relation "measure (\<lambda>(mem, boundary, acc, b).
          case b of None \<Rightarrow> 0 | Some p \<Rightarrow> Suc (nat (int (length mem) - p)))")
  show "wf (measure (\<lambda>(mem, boundary, acc, b).
          case b of None \<Rightarrow> 0 | Some p \<Rightarrow> Suc (nat (int (length mem) - p))))"
    by simp
next
  fix mem boundary :: string and acc x2 :: "int option \<times> int option"
    and b x2b :: "int option" and p :: int
  assume "b = Some p" and lt: "p + int (g_utf8_strlen boundary) + 4 < int (length mem)"
    and m: "memchr mem (p + 2) DASH (int (length mem) - (p + 2)) = Inr x2b"
  show "((mem, boundary, x2, x2b), (mem, boundary, acc, b)) \<in> measure (\<lambda>(mem, boundary, acc, b).
          case b of None \<Rightarrow> 0 | Some p \<Rightarrow> Suc (nat (int (length mem) - p)))"
  proof (cases x2b)
    case None
    with \<open>b = Some p\<close> show ?thesis by simp
  next
    case (Some q)
    with m have "p + 2 \<le> q" by (auto dest: memchr_ge)
    with Some \<open>b = Some p\<close> lt show ?thesis by simp
  qed
qed

text \<open>
  The header loop: \<open>for (c = memchr ( *content_start, '\r', \<dots>); c < end; c = memchr
  (c + 4, '\r', end - (c + 2)))\<close>. A \<open>NULL\<close> \<open>c\<close> is address 0, below \<open>end\<close>,
  so the body runs and \<open>c[1]\<close> reads address 1. The result is the new
  \<open>*content_start\<close>.
\<close>

definition blank_line_at :: "string \<Rightarrow> int \<Rightarrow> error + bool" where
  "blank_line_at mem c =
     ebind (rd mem (c + 1)) (\<lambda>c1.
       if c1 \<noteq> LF then Inr False
       else ebind (rd mem (c + 2)) (\<lambda>c2.
         if c2 \<noteq> CR then Inr False
         else ebind (rd mem (c + 3)) (\<lambda>c3. Inr (c3 = LF))))"

function header_loop :: "string \<Rightarrow> int \<Rightarrow> int option \<Rightarrow> error + int" where
  "header_loop mem content_start c =
     (case c of
        None \<Rightarrow> Inl NullDeref
      | Some p \<Rightarrow>
          if p < int (length mem) then
            (case blank_line_at mem p of
               Inl e \<Rightarrow> Inl e
             | Inr True \<Rightarrow> Inr (p + 4)
             | Inr False \<Rightarrow>
                 (case memchr mem (p + 4) CR (int (length mem) - (p + 2)) of
                    Inl e \<Rightarrow> Inl e
                  | Inr c' \<Rightarrow> header_loop mem content_start c'))
          else Inr content_start)"
  by pat_completeness auto
termination
proof (relation "measure (\<lambda>(mem, content_start, c).
          case c of None \<Rightarrow> 0 | Some p \<Rightarrow> Suc (nat (int (length mem) - p)))")
  show "wf (measure (\<lambda>(mem, content_start, c).
          case c of None \<Rightarrow> 0 | Some p \<Rightarrow> Suc (nat (int (length mem) - p))))"
    by simp
next
  fix mem :: string and content_start :: int and c x2b :: "int option" and p :: int
    and x2 :: bool
  assume "c = Some p" and lt: "p < int (length mem)"
    and m: "memchr mem (p + 4) CR (int (length mem) - (p + 2)) = Inr x2b"
  show "((mem, content_start, x2b), (mem, content_start, c)) \<in> measure (\<lambda>(mem, content_start, c).
          case c of None \<Rightarrow> 0 | Some p \<Rightarrow> Suc (nat (int (length mem) - p)))"
  proof (cases x2b)
    case None
    with \<open>c = Some p\<close> show ?thesis by simp
  next
    case (Some q)
    with m have "p + 4 \<le> q" by (auto dest: memchr_ge)
    with Some \<open>c = Some p\<close> lt show ?thesis by simp
  qed
qed

definition find_content_part :: "string \<Rightarrow> string \<Rightarrow> error + (int option \<times> int option)" where
  "find_content_part mem boundary =
     ebind (memchr mem 0 DASH (int (length mem))) (\<lambda>b0.
     ebind (boundary_loop mem boundary (None, None) b0) (\<lambda>(content_start, content_end).
       case content_start of
         None \<Rightarrow> Inr (None, content_end)
       | Some cs \<Rightarrow>
           ebind (memchr mem cs CR (int (length mem) - cs)) (\<lambda>c0.
           ebind (header_loop mem cs c0) (\<lambda>cs'. Inr (Some cs', content_end)))))"

section \<open>Objects of the server\<close>

text \<open>
  Messages (\<open>SoupMessage\<close>) and endpoints (the \<open>GstElement\<close> of an
  \<open>httpendpoint\<close>) are objects with identity: the server state holds one record per
  object, indexed by a number that stands for the pointer. The data that the code hangs
  on an object with \<open>g_object_set_data_full\<close> is a field named after its key; a key
  that was never set reads as \<open>NULL\<close>, here \<open>None\<close>. Reference counts and the
  release of memory (\<open>g_free\<close>, \<open>g_slice_free\<close>, \<open>g_object_unref\<close>,
  \<open>g_hash_table_destroy\<close>) are not part of the state; the two places where the code
  reads what it has released or never assigned are branches of
  \<open>kms_http_ep_server_unregister_end_point_impl\<close> and
  \<open>kms_http_ep_server_post_handler\<close>.
\<close>

datatype KmsHttpEndPointAction =
  KMS_HTTP_END_POINT_ACTION_UNDEFINED
| KMS_HTTP_END_POINT_ACTION_GET
| KMS_HTTP_END_POINT_ACTION_POST

datatype obj_signal =
  ACTION_REQUESTED string KmsHttpEndPointAction
| URL_REMOVED string
| URL_EXPIRED string

text \<open>
  A cookie of libsoup. \<open>soup_cookie_new\<close> with \<open>max_age\<close> \<open>-1\<close> gives a
  cookie with no expiry date, with \<open>0\<close> one that expired in 1970, and otherwise one
  that expires \<open>max_age\<close> seconds from now. Dates are seconds since the epoch.
\<close>

record SoupCookie =
  cookie_name :: string
  cookie_value :: string
  cookie_domain :: "string option"
  cookie_path :: string
  cookie_max_age :: int
  cookie_expires :: "int option"

definition soup_cookie_new ::
  "int \<Rightarrow> string \<Rightarrow> string \<Rightarrow> string option \<Rightarrow> string \<Rightarrow> int \<Rightarrow> SoupCookie" where
  "soup_cookie_new now name val domain path max_age =
     \<lparr>cookie_name = name, cookie_value = val, cookie_domain = domain, cookie_path = path,
      cookie_max_age = max_age,
      cookie_expires =
        (if max_age = - 1 then None else if max_age = 0 then Some 0 else Some (now + max_age))\<rparr>"

datatype header_value = Text string | Set_Cookie_Header SoupCookie

datatype msg_callback =
  CB_got_chunk_handler nat
| CB_finished_get_processing nat
| CB_finished_post_processing nat

datatype ep_callback =
  CB_new_sample_handler
| CB_get_recv_eos nat

record SoupMessage =
  msg_method :: string
  msg_path :: string
  request_cookies :: "(string \<times> string) list"
  request_content_type :: "(string \<times> (string \<rightharpoonup> string)) option"
  request_accumulate :: bool
  status_code :: nat
  response_headers :: "(string \<times> header_value) list"
  response_chunked :: bool
  response_body :: "string list"
  response_complete :: bool
  io_paused :: bool
  msg_handlers :: "(nat \<times> msg_callback) list"
  KEY_HTTP_EP_SERVER :: bool
  KEY_FINISHED :: "bool option"
  KEY_BOUNDARY :: "string option"
  KEY_NEW_SAMPLE_HANDLER_ID :: "nat option"
  KEY_GOT_CHUNK_HANDLER_ID :: "nat option"
  KEY_FINISHED_HANDLER_ID :: "nat option"
  KEY_EOS_HANDLER_ID :: "nat option"

record HttpEP =
  ep_start :: bool
  ep_handlers :: "(nat \<times> ep_callback) list"
  ep_pushed :: "string list"
  ep_eos :: bool
  KEY_COOKIE :: "SoupCookie option"
  KEY_TIMEOUT_ID :: "nat option"
  KEY_MESSAGE :: "nat option"
  KEY_PARAM_TIMEOUT :: "nat option"
  KEY_PARAM_LIFETIME :: "nat option"

text \<open>
  A GStreamer sample as \<open>send_buffer_cb\<close> sees it: it may hold no buffer, and the
  buffer may refuse to be mapped for reading.
\<close>

datatype GstBuffer = Buffer (map_ok: bool) (buffer_data: string)

record sample_data =
  sd_sample :: "GstBuffer option"
  sd_msg :: nat

text \<open>
  The server: the private structure (\<open>handlers\<close>, \<open>announcedAddr\<close>, whether the
  \<open>SoupServer\<close> exists), the objects, the timeout sources of the main loop (id,
  interval in milliseconds, the message given to the callback), the idle tasks queued by
  \<open>g_idle_add_full\<close>, the next free id for a signal handler or source, and the
  signals the server object has emitted, oldest first.
\<close>

record KmsHttpEPServer =
  handlers :: "(string \<times> nat) list option"
  announcedAddr :: "string option"
  server_started :: bool
  server_quit :: bool
  httpeps :: "nat \<Rightarrow> HttpEP"
  msgs :: "nat \<Rightarrow> SoupMessage"
  timeouts :: "(nat \<times> nat \<times> nat) list"
  idle_tasks :: "sample_data list"
  next_id :: nat
  emitted :: "obj_signal list"

definition upd_msg :: "nat \<Rightarrow> (SoupMessage \<Rightarrow> SoupMessage) \<Rightarrow> KmsHttpEPServer \<Rightarrow> KmsHttpEPServer" where
  "upd_msg m f s = s\<lparr>msgs := (msgs s)(m := f (msgs s m))\<rparr>"

definition upd_ep :: "nat \<Rightarrow> (HttpEP \<Rightarrow> HttpEP) \<Rightarrow> KmsHttpEPServer \<Rightarrow> KmsHttpEPServer" where
  "upd_ep e f s = s\<lparr>httpeps := (httpeps s)(e := f (httpeps s e))\<rparr>"

definition g_signal_emit :: "obj_signal \<Rightarrow> KmsHttpEPServer \<Rightarrow> KmsHttpEPServer" where
  "g_signal_emit sig s = s\<lparr>emitted := emitted s @ [sig]\<rparr>"

text \<open>
  GLib's hash table calls. The table is a list of key-value pairs with at most one
  pair per key. On a \<open>NULL\<close> table \<open>g_hash_table_lookup\<close> returns \<open>NULL\<close>
  (\<open>g_return_val_if_fail (hash_table != NULL, NULL)\<close>) and \<open>g_hash_table_insert\<close>
  returns without inserting.
\<close>

definition g_hash_table_lookup :: "('k \<times> 'v) list option \<Rightarrow> 'k \<Rightarrow> 'v option" where
  "g_hash_table_lookup t k = (case t of None \<Rightarrow> None | Some h \<Rightarrow> map_of h k)"

definition g_hash_table_remove :: "('k \<times> 'v) list \<Rightarrow> 'k \<Rightarrow> ('k \<times> 'v) list" where
  "g_hash_table_remove h k = filter (\<lambda>kv. fst kv \<noteq> k) h"

definition g_hash_table_insert :: "('k \<times> 'v) list option \<Rightarrow> 'k \<Rightarrow> 'v \<Rightarrow> ('k \<times> 'v) list option" where
  "g_hash_table_insert t k v =
     (case t of
        None \<Rightarrow> None
      | Some h \<Rightarrow> Some (g_hash_table_remove h k @ [(k, v)]))"

text \<open>
  \<open>g_signal_connect\<close> returns a fresh handler id; \<open>g_signal_handler_disconnect\<close>
  removes the handler with that id; \<open>g_timeout_add_full\<close> and \<open>g_source_remove\<close>
  do the same for the timeout sources of the main loop.
\<close>

definition msg_signal_connect :: "nat \<Rightarrow> msg_callback \<Rightarrow> KmsHttpEPServer \<Rightarrow> nat \<times> KmsHttpEPServer" where
  "msg_signal_connect m cb s =
     (next_id s,
      upd_msg m (\<lambda>x. x\<lparr>msg_handlers := msg_handlers x @ [(next_id s, cb)]\<rparr>)
        (s\<lparr>next_id := Suc (next_id s)\<rparr>))"

definition ep_signal_connect :: "nat \<Rightarrow> ep_callback \<Rightarrow> KmsHttpEPServer \<Rightarrow> nat \<times> KmsHttpEPServer" where
  "ep_signal_connect e cb s =
     (next_id s,
      upd_ep e (\<lambda>x. x\<lparr>ep_handlers := ep_handlers x @ [(next_id s, cb)]\<rparr>)
        (s\<lparr>next_id := Suc (next_id s)\<rparr>))"

definition msg_signal_handler_disconnect :: "nat \<Rightarrow> nat \<Rightarrow> KmsHttpEPServer \<Rightarrow> KmsHttpEPServer" where
  "msg_signal_handler_disconnect m hid s =
     upd_msg m (\<lambda>x. x\<lparr>msg_handlers := filter (\<lambda>h. fst h \<noteq> hid) (msg_handlers x)\<rparr>) s"

definition ep_signal_handler_disconnect :: "nat \<Rightarrow> nat \<Rightarrow> KmsHttpEPServer \<Rightarrow> KmsHttpEPServer" where
  "ep_signal_handler_disconnect e hid s =
     upd_ep e (\<lambda>x. x\<lparr>ep_handlers := filter (\<lambda>h. fst h \<noteq> hid) (ep_handlers x)\<rparr>) s"

definition g_timeout_add_full :: "nat \<Rightarrow> nat \<Rightarrow> KmsHttpEPServer \<Rightarrow> nat \<times> KmsHttpEPServer" where
  "g_timeout_add_full interval_ms m s =
     (next_id s,
      s\<lparr>timeouts := timeouts s @ [(next_id s, interval_ms, m)], next_id := Suc (next_id s)\<rparr>)"

definition g_source_remove :: "nat \<Rightarrow> KmsHttpEPServer \<Rightarrow> KmsHttpEPServer" where
  "g_source_remove sid s = s\<lparr>timeouts := filter (\<lambda>t. fst t \<noteq> sid) (timeouts s)\<rparr>"

section \<open>Cookies, timers and the write task\<close>

text \<open>
  \<open>soup_date_is_past\<close> compares the date with the clock. For a \<open>NULL\<close> date it
  returns \<open>TRUE\<close> (\<open>g_return_val_if_fail (date != NULL, TRUE)\<close>), and
  \<open>soup_date_to_time_t\<close> returns 0 for one. The clock is the parameter \<open>now\<close> of
  every function that reads it. (libsoup answers \<open>TRUE\<close> without a comparison for a
  date in a year long past; for every clock later than such a year the comparison gives
  the same, and the small clock values of the sample runs stand for such times.)
\<close>

definition soup_date_is_past :: "int \<Rightarrow> int option \<Rightarrow> bool" where
  "soup_date_is_past now date = (case date of None \<Rightarrow> True | Some t \<Rightarrow> t < now)"

definition soup_date_to_time_t :: "int option \<Rightarrow> int" where
  "soup_date_to_time_t date = (case date of None \<Rightarrow> 0 | Some t \<Rightarrow> t)"

text \<open>
  \<open>cookie_has_expired\<close> hands the cookie's expiry date to \<open>soup_date_is_past\<close>
  as it is, also when the cookie has none.
\<close>

definition cookie_has_expired :: "int \<Rightarrow> SoupCookie \<Rightarrow> bool" where
  "cookie_has_expired now cookie = soup_date_is_past now (cookie_expires cookie)"

definition remove_cookie_timeout :: "nat \<Rightarrow> KmsHttpEPServer \<Rightarrow> KmsHttpEPServer" where
  "remove_cookie_timeout httpep s =
     (case KEY_TIMEOUT_ID (httpeps s httpep) of
        None \<Rightarrow> s
      | Some timeout_id \<Rightarrow>
          upd_ep httpep (\<lambda>x. x\<lparr>KEY_TIMEOUT_ID := None\<rparr>) (g_source_remove timeout_id s))"

definition msg_has_finished :: "KmsHttpEPServer \<Rightarrow> nat \<Rightarrow> error + bool" where
  "msg_has_finished s msg =
     (case KEY_FINISHED (msgs s msg) of None \<Rightarrow> Inl NullDeref | Some finished \<Rightarrow> Inr finished)"

definition kms_http_ep_server_get_ep_from_msg :: "KmsHttpEPServer \<Rightarrow> nat \<Rightarrow> nat option" where
  "kms_http_ep_server_get_ep_from_msg s msg =
     (case handlers s of None \<Rightarrow> None | Some h \<Rightarrow> map_of h (msg_path (msgs s msg)))"

definition send_buffer_cb :: "sample_data \<Rightarrow> KmsHttpEPServer \<Rightarrow> error + KmsHttpEPServer" where
  "send_buffer_cb sdata s =
     ebind (msg_has_finished s (sd_msg sdata)) (\<lambda>finished.
       if finished then Inr s
       else
         (case sd_sample sdata of
            None \<Rightarrow> Inr s
          | Some buffer \<Rightarrow>
              if \<not> map_ok buffer then Inr s
              else Inr (upd_msg (sd_msg sdata)
                     (\<lambda>x. x\<lparr>response_body := response_body x @ [buffer_data buffer],
                             io_paused := False\<rparr>) s)))"

text \<open>
  \<open>new_sample_handler\<close>: \<open>pulled\<close> is the sample that the \<open>pull-sample\<close> action
  returns. The result says whether the flow is \<open>GST_FLOW_OK\<close>. With no message bound
  to the endpoint, or no server stored on the message, \<open>g_object_ref\<close> returns
  \<open>NULL\<close> and the task is queued with that pointer, which \<open>send_buffer_cb\<close> then
  dereferences; the model reports that failure here, where the task is made.
\<close>

definition new_sample_handler ::
  "nat \<Rightarrow> GstBuffer option option \<Rightarrow> KmsHttpEPServer \<Rightarrow> error + (bool \<times> KmsHttpEPServer)" where
  "new_sample_handler httpep pulled s =
     (case pulled of
        None \<Rightarrow> Inr (False, s)
      | Some sample \<Rightarrow>
          (case KEY_MESSAGE (httpeps s httpep) of
             None \<Rightarrow> Inl NullDeref
           | Some msg \<Rightarrow>
               if \<not> KEY_HTTP_EP_SERVER (msgs s msg) then Inl NullDeref
               else Inr (True, s\<lparr>idle_tasks := idle_tasks s @ [\<lparr>sd_sample = sample, sd_msg = msg\<rparr>]\<rparr>)))"

definition get_recv_eos :: "nat \<Rightarrow> KmsHttpEPServer \<Rightarrow> KmsHttpEPServer" where
  "get_recv_eos msg s = upd_msg msg (\<lambda>x. x\<lparr>response_complete := True\<rparr>) s"

definition msg_finished :: "nat \<Rightarrow> KmsHttpEPServer \<Rightarrow> error + KmsHttpEPServer" where
  "msg_finished msg s =
     (case KEY_FINISHED (msgs s msg) of
        None \<Rightarrow> Inl NullDeref
      | Some _ \<Rightarrow> Inr (upd_msg msg (\<lambda>x. x\<lparr>KEY_FINISHED := Some True\<rparr>) s))"

definition disconnect_eos_new_sample_signals :: "nat \<Rightarrow> KmsHttpEPServer \<Rightarrow> error + KmsHttpEPServer" where
  "disconnect_eos_new_sample_signals msg s =
     (if \<not> KEY_HTTP_EP_SERVER (msgs s msg) then Inl NullDeref
      else
        (case handlers s of
           None \<Rightarrow> Inr s
         | Some h \<Rightarrow>
             (case map_of h (msg_path (msgs s msg)) of
                None \<Rightarrow> Inr s
              | Some httpep \<Rightarrow>
                  (case KEY_NEW_SAMPLE_HANDLER_ID (msgs s msg) of
                     None \<Rightarrow> Inl NullDeref
                   | Some h1 \<Rightarrow>
                       (case KEY_EOS_HANDLER_ID (msgs s msg) of
                          None \<Rightarrow> Inl NullDeref
                        | Some h2 \<Rightarrow>
                            Inr (ep_signal_handler_disconnect httpep h2
                                  (ep_signal_handler_disconnect httpep h1 s)))))))"

text \<open>
  \<open>emit_expiration_signal_cb\<close>, the callback of the expiry timer. Without a server
  stored on the message, \<open>serv->priv\<close> dereferences \<open>NULL\<close>.
\<close>

definition emit_expiration_signal_cb :: "nat \<Rightarrow> KmsHttpEPServer \<Rightarrow> error + KmsHttpEPServer" where
  "emit_expiration_signal_cb msg s =
     (if \<not> KEY_HTTP_EP_SERVER (msgs s msg) then Inl NullDeref
      else
        (let path = msg_path (msgs s msg);
             s1 = g_signal_emit (URL_EXPIRED path) s
         in case g_hash_table_lookup (handlers s1) path of
              None \<Rightarrow> Inr s1
            | Some e \<Rightarrow> Inr (remove_cookie_timeout e s1)))"

text \<open>
  The main loop runs a timeout source when its interval has passed; the callback returns
  \<open>FALSE\<close>, so the source is destroyed after the call.
\<close>

definition timeout_dispatch :: "nat \<Rightarrow> KmsHttpEPServer \<Rightarrow> error + KmsHttpEPServer" where
  "timeout_dispatch sid s =
     (case map_of (timeouts s) sid of
        None \<Rightarrow> Inr s
      | Some (interval_ms, msg) \<Rightarrow>
          ebind (emit_expiration_signal_cb msg s) (\<lambda>s1. Inr (g_source_remove sid s1)))"

text \<open>
  \<open>emit_expiration_signal\<close>. The two \<open>difftime\<close> values are whole seconds;
  \<open>interval\<close> is a \<open>guint\<close>, and so is the product \<open>interval * 1000\<close> that
  \<open>g_timeout_add_full\<close> receives as its interval in milliseconds: 32 bits, wrapping.
  \<open>g_signal_emit\<close> on a \<open>NULL\<close> server object returns without emitting.
\<close>

definition emit_expiration_signal :: "int \<Rightarrow> nat \<Rightarrow> nat \<Rightarrow> KmsHttpEPServer \<Rightarrow> error + KmsHttpEPServer" where
  "emit_expiration_signal now msg httpep s =
     (case KEY_COOKIE (httpeps s httpep) of
        None \<Rightarrow> Inr s
      | Some cookie \<Rightarrow>
          if cookie_has_expired now cookie then
            (if KEY_HTTP_EP_SERVER (msgs s msg)
             then Inr (g_signal_emit (URL_EXPIRED (msg_path (msgs s msg))) s)
             else Inr s)
          else
            (let date = soup_date_to_time_t (cookie_expires cookie) in
             case KEY_PARAM_TIMEOUT (httpeps s httpep) of
               None \<Rightarrow> Inl NullDeref
             | Some timeout \<Rightarrow>
                 (let t_cookie = date - now;
                      t_timeout = int timeout;
                      interval = nat (if t_cookie < t_timeout then t_cookie else t_timeout) mod 2 ^ 32;
                      (sid, s1) = g_timeout_add_full ((interval * 1000) mod 2 ^ 32) msg s
                  in Inr (upd_ep httpep (\<lambda>x. x\<lparr>KEY_TIMEOUT_ID := Some sid\<rparr>) s1))))"

section \<open>GET and POST transfers\<close>

text \<open>
  \<open>g_object_steal_data (httpep, KEY_MESSAGE)\<close> takes the message off the endpoint
  without running its destroy notification.
\<close>

definition steal_KEY_MESSAGE :: "nat \<Rightarrow> KmsHttpEPServer \<Rightarrow> KmsHttpEPServer" where
  "steal_KEY_MESSAGE httpep s = upd_ep httpep (\<lambda>x. x\<lparr>KEY_MESSAGE := None\<rparr>) s"

definition finished_get_processing :: "int \<Rightarrow> nat \<Rightarrow> nat \<Rightarrow> KmsHttpEPServer \<Rightarrow> error + KmsHttpEPServer" where
  "finished_get_processing now msg httpep s =
     ebind (msg_finished msg s) (\<lambda>s1.
     ebind (disconnect_eos_new_sample_signals msg s1) (\<lambda>s2.
       emit_expiration_signal now msg httpep
         (steal_KEY_MESSAGE httpep (upd_ep httpep (\<lambda>x. x\<lparr>ep_start := False\<rparr>) s2))))"

definition msg_add_finished_property :: "nat \<Rightarrow> KmsHttpEPServer \<Rightarrow> KmsHttpEPServer" where
  "msg_add_finished_property msg s = upd_msg msg (\<lambda>x. x\<lparr>KEY_FINISHED := Some False\<rparr>) s"

definition SOUP_STATUS_OK :: nat where "SOUP_STATUS_OK = 200"
definition SOUP_STATUS_BAD_REQUEST :: nat where "SOUP_STATUS_BAD_REQUEST = 400"
definition SOUP_STATUS_NOT_FOUND :: nat where "SOUP_STATUS_NOT_FOUND = 404"
definition SOUP_STATUS_METHOD_NOT_ALLOWED :: nat where "SOUP_STATUS_METHOD_NOT_ALLOWED = 405"
definition SOUP_STATUS_NOT_ACCEPTABLE :: nat where "SOUP_STATUS_NOT_ACCEPTABLE = 406"

definition soup_message_set_status :: "nat \<Rightarrow> nat \<Rightarrow> KmsHttpEPServer \<Rightarrow> KmsHttpEPServer" where
  "soup_message_set_status msg code s = upd_msg msg (\<lambda>x. x\<lparr>status_code := code\<rparr>) s"

definition kms_http_ep_server_get_handler :: "nat \<Rightarrow> nat \<Rightarrow> KmsHttpEPServer \<Rightarrow> KmsHttpEPServer" where
  "kms_http_ep_server_get_handler msg httpep s =
     (let s1 = soup_message_set_status msg SOUP_STATUS_OK s;
          s2 = upd_msg msg (\<lambda>x. x\<lparr>response_headers :=
                   response_headers x @ [(''Content-Type'', Text ''video/webm'')],
                   response_chunked := True\<rparr>) s1;
          s3 = msg_add_finished_property msg s2;
          (h1, s4) = msg_signal_connect msg (CB_finished_get_processing httpep) s3;
          s5 = upd_msg msg (\<lambda>x. x\<lparr>KEY_FINISHED_HANDLER_ID := Some h1\<rparr>) s4;
          (h2, s6) = ep_signal_connect httpep CB_new_sample_handler s5;
          s7 = upd_msg msg (\<lambda>x. x\<lparr>KEY_NEW_SAMPLE_HANDLER_ID := Some h2\<rparr>) s6;
          (h3, s8) = ep_signal_connect httpep (CB_get_recv_eos msg) s7;
          s9 = upd_msg msg (\<lambda>x. x\<lparr>KEY_EOS_HANDLER_ID := Some h3\<rparr>) s8
      in upd_ep httpep (\<lambda>x. x\<lparr>ep_start := True\<rparr>) s9)"

text \<open>
  \<open>got_chunk_handler\<close>: the part of the chunk that is copied into the new buffer and
  pushed into the endpoint. \<open>len\<close> is a \<open>gint\<close>, and \<open>memcpy\<close> reads
  \<open>len\<close> bytes from \<open>copy_from\<close>; a negative \<open>len\<close> is a huge size for the
  allocator and for \<open>memcpy\<close>, a copy that cannot stay inside the chunk.
\<close>

definition got_chunk_handler :: "nat \<Rightarrow> string \<Rightarrow> nat \<Rightarrow> KmsHttpEPServer \<Rightarrow> error + KmsHttpEPServer" where
  "got_chunk_handler msg chunk httpep s =
     ebind (case KEY_BOUNDARY (msgs s msg) of
              None \<Rightarrow> Inr (None, None)
            | Some boundary \<Rightarrow> find_content_part chunk boundary) (\<lambda>(content_start, content_end).
       let (copy_from, len) =
             (case content_start of
                Some cs \<Rightarrow>
                  (cs, case content_end of Some ce \<Rightarrow> ce - cs | None \<Rightarrow> int (length chunk) - cs)
              | None \<Rightarrow>
                  (case content_end of Some ce \<Rightarrow> (0, ce) | None \<Rightarrow> (0, int (length chunk))))
       in if len < 0 \<or> copy_from < 0 \<or> int (length chunk) < copy_from + len then Inl OutOfBounds
          else Inr (upd_ep httpep
                 (\<lambda>x. x\<lparr>ep_pushed := ep_pushed x @ [take (nat len) (drop (nat copy_from) chunk)]\<rparr>) s))"

definition finished_post_processing :: "int \<Rightarrow> nat \<Rightarrow> nat \<Rightarrow> KmsHttpEPServer \<Rightarrow> error + KmsHttpEPServer" where
  "finished_post_processing now msg httpep s =
     ebind (msg_finished msg s) (\<lambda>s1.
       emit_expiration_signal now msg httpep
         (steal_KEY_MESSAGE httpep (upd_ep httpep (\<lambda>x. x\<lparr>ep_eos := True\<rparr>) s1)))"

text \<open>
  \<open>kms_http_ep_server_post_handler\<close>. The first argument of \<open>g_str_has_prefix\<close> is
  the literal \<open>"multipart/"\<close>, the second the request's content type, as in the source.

  The local \<open>params\<close> is declared without an initialiser, and libsoup's
  \<open>soup_message_headers_get_content_type\<close> assigns \<open>*params\<close> only when the request
  has a content type (it returns \<open>NULL\<close> at once otherwise). Every path ends in the
  block \<open>end: if (params != NULL) g_hash_table_destroy (params);\<close>. With a content type
  that block releases the table libsoup made, which the model does not track. With none,
  the test reads a variable that was never assigned, and the call receives its value if
  that is not \<open>NULL\<close>: \<open>end_label\<close> is given whether \<open>params\<close> was assigned.
\<close>

definition kms_http_ep_server_post_handler ::
  "nat \<Rightarrow> nat \<Rightarrow> KmsHttpEPServer \<Rightarrow> error + KmsHttpEPServer" where
  "kms_http_ep_server_post_handler msg httpep s =
     (let get_chunks = (\<lambda>s0.
            let s1 = soup_message_set_status msg SOUP_STATUS_OK s0;
                s2 = upd_msg msg (\<lambda>x. x\<lparr>request_accumulate := False\<rparr>) s1;
                s3 = msg_add_finished_property msg s2;
                (h1, s4) = msg_signal_connect msg (CB_got_chunk_handler httpep) s3;
                s5 = upd_msg msg (\<lambda>x. x\<lparr>KEY_GOT_CHUNK_HANDLER_ID := Some h1\<rparr>) s4;
                (h2, s6) = msg_signal_connect msg (CB_finished_post_processing httpep) s5
            in upd_msg msg (\<lambda>x. x\<lparr>KEY_FINISHED_HANDLER_ID := Some h2\<rparr>) s6);
          end_label = (\<lambda>params_assigned s0.
            if params_assigned then Inr s0 else Inl UninitialisedRead)
      in case request_content_type (msgs s msg) of
           None \<Rightarrow> end_label False (soup_message_set_status msg SOUP_STATUS_NOT_ACCEPTABLE s)
         | Some (content_type, params) \<Rightarrow>
             if \<not> g_str_has_prefix ''multipart/'' content_type then end_label True (get_chunks s)
             else
               (case params ''boundary'' of
                  None \<Rightarrow> end_label True (soup_message_set_status msg SOUP_STATUS_NOT_ACCEPTABLE s)
                | Some boundary \<Rightarrow>
                    end_label True
                      (get_chunks (upd_msg msg (\<lambda>x. x\<lparr>KEY_BOUNDARY := Some boundary\<rparr>) s))))"

text \<open>
  libsoup emits \<open>finished\<close> on a message once; the handlers connected to the message at
  that moment run in the order of their connection.
\<close>

fun run_finished :: "int \<Rightarrow> nat \<Rightarrow> msg_callback list \<Rightarrow> KmsHttpEPServer \<Rightarrow> error + KmsHttpEPServer" where
  "run_finished now msg [] s = Inr s"
| "run_finished now msg (CB_finished_get_processing httpep # cbs) s =
     ebind (finished_get_processing now msg httpep s) (run_finished now msg cbs)"
| "run_finished now msg (CB_finished_post_processing httpep # cbs) s =
     ebind (finished_post_processing now msg httpep s) (run_finished now msg cbs)"
| "run_finished now msg (CB_got_chunk_handler httpep # cbs) s = run_finished now msg cbs s"

definition soup_message_finished :: "int \<Rightarrow> nat \<Rightarrow> KmsHttpEPServer \<Rightarrow> error + KmsHttpEPServer" where
  "soup_message_finished now msg s = run_finished now msg (map snd (msg_handlers (msgs s msg))) s"

section \<open>Registry and dispatch\<close>

definition emit_removed_url_signal :: "string \<Rightarrow> KmsHttpEPServer \<Rightarrow> KmsHttpEPServer" where
  "emit_removed_url_signal uri s = g_signal_emit (URL_REMOVED uri) s"

text \<open>
  \<open>destroy_pending_message\<close>, the destroy notification of \<open>KEY_MESSAGE\<close>.
  \<open>msg->method\<close> is an interned string, compared by pointer with the interned
  \<open>"GET"\<close> and \<open>"POST"\<close>.
\<close>

definition SOUP_METHOD_GET :: string where "SOUP_METHOD_GET = ''GET''"
definition SOUP_METHOD_POST :: string where "SOUP_METHOD_POST = ''POST''"

definition destroy_pending_message :: "nat \<Rightarrow> KmsHttpEPServer \<Rightarrow> error + KmsHttpEPServer" where
  "destroy_pending_message msg s =
     ebind
       (if msg_method (msgs s msg) = SOUP_METHOD_GET then
          (if \<not> KEY_HTTP_EP_SERVER (msgs s msg) then Inl NullDeref
           else
             (let httpep = kms_http_ep_server_get_ep_from_msg s msg in
              ebind (disconnect_eos_new_sample_signals msg s) (\<lambda>s1.
                let s2 = (case httpep of
                            None \<Rightarrow> s1
                          | Some e \<Rightarrow> upd_ep e (\<lambda>x. x\<lparr>ep_start := False\<rparr>) s1)
                in Inr (upd_msg msg (\<lambda>x. x\<lparr>io_paused := False, response_complete := True\<rparr>) s2))))
        else if msg_method (msgs s msg) = SOUP_METHOD_POST then
          (case KEY_GOT_CHUNK_HANDLER_ID (msgs s msg) of
             None \<Rightarrow> Inl NullDeref
           | Some handlerid \<Rightarrow> Inr (msg_signal_handler_disconnect msg handlerid s))
        else Inr s)
       (\<lambda>s3.
          case KEY_FINISHED_HANDLER_ID (msgs s3 msg) of
            None \<Rightarrow> Inl NullDeref
          | Some handlerid \<Rightarrow> Inr (msg_signal_handler_disconnect msg handlerid s3))"

text \<open>
  \<open>g_object_set_data_full (httpep, KEY_MESSAGE, data, destroy_pending_message)\<close>
  stores the new value and then runs the destroy notification of the value it replaced.
\<close>

definition set_KEY_MESSAGE :: "nat \<Rightarrow> nat option \<Rightarrow> KmsHttpEPServer \<Rightarrow> error + KmsHttpEPServer" where
  "set_KEY_MESSAGE httpep new s =
     (let s1 = upd_ep httpep (\<lambda>x. x\<lparr>KEY_MESSAGE := new\<rparr>) s in
      case KEY_MESSAGE (httpeps s httpep) of
        None \<Rightarrow> Inr s1
      | Some old \<Rightarrow> destroy_pending_message old s1)"

text \<open>
  \<open>kms_http_ep_server_destroy_handlers\<close> emits \<open>url-removed\<close> for every key, empties
  the table and sets \<open>handlers\<close> to \<open>NULL\<close>. (\<open>g_hash_table_get_keys\<close> of a
  \<open>NULL\<close> table is the empty list.) \<open>kms_http_ep_server_stop_impl\<close> leaves the
  \<open>SoupServer\<close> in place, so the server counts as started afterwards too.
\<close>

definition kms_http_ep_server_destroy_handlers :: "KmsHttpEPServer \<Rightarrow> KmsHttpEPServer" where
  "kms_http_ep_server_destroy_handlers s =
     (let keys = (case handlers s of None \<Rightarrow> [] | Some h \<Rightarrow> map fst h)
      in (fold emit_removed_url_signal keys s)\<lparr>handlers := None\<rparr>)"

definition kms_http_ep_server_stop_impl :: "KmsHttpEPServer \<Rightarrow> KmsHttpEPServer" where
  "kms_http_ep_server_stop_impl s =
     (if \<not> server_started s then s
      else (kms_http_ep_server_destroy_handlers s)\<lparr>server_quit := True\<rparr>)"

text \<open>
  \<open>kms_http_ep_server_register_handler\<close> looks the path up and inserts it when the
  lookup gave \<open>NULL\<close>. It does not test \<open>handlers\<close> for \<open>NULL\<close>, as
  \<open>kms_http_ep_server_unregister_end_point_impl\<close>, \<open>kms_http_ep_server_get_ep_from_msg\<close>
  and \<open>disconnect_eos_new_sample_signals\<close> do.
\<close>

definition kms_http_ep_server_register_handler ::
  "string \<Rightarrow> nat \<Rightarrow> KmsHttpEPServer \<Rightarrow> bool \<times> KmsHttpEPServer" where
  "kms_http_ep_server_register_handler uri endpoint s =
     (case g_hash_table_lookup (handlers s) uri of
        Some _ \<Rightarrow> (False, s)
      | None \<Rightarrow> (True, s\<lparr>handlers := g_hash_table_insert (handlers s) uri endpoint\<rparr>))"

definition COOKIE_NAME :: string where "COOKIE_NAME = ''HttpEPCookie''"

text \<open>
  \<open>kms_http_ep_server_set_cookie\<close>. \<open>id_str\<close> is the decimal text of the random
  64-bit number; the \<open>guint\<close> lifetime becomes the \<open>int\<close> \<open>max_age\<close> of
  \<open>soup_cookie_new\<close>.
\<close>

definition guint_to_int :: "nat \<Rightarrow> int" where
  "guint_to_int n = (if n mod 2 ^ 32 < 2 ^ 31 then int (n mod 2 ^ 32) else int (n mod 2 ^ 32) - 2 ^ 32)"

definition kms_http_ep_server_set_cookie ::
  "int \<Rightarrow> string \<Rightarrow> nat \<Rightarrow> nat \<Rightarrow> string \<Rightarrow> KmsHttpEPServer \<Rightarrow> error + KmsHttpEPServer" where
  "kms_http_ep_server_set_cookie now id_str httpep msg path s =
     (case KEY_PARAM_LIFETIME (httpeps s httpep) of
        None \<Rightarrow> Inl NullDeref
      | Some lifetime \<Rightarrow>
          (let cookie = soup_cookie_new now COOKIE_NAME id_str (announcedAddr s) path
                          (guint_to_int lifetime);
               s1 = upd_msg msg (\<lambda>x. x\<lparr>response_headers :=
                      response_headers x @ [(''Set-Cookie'', Set_Cookie_Header cookie)]\<rparr>) s
           in Inr (upd_ep httpep (\<lambda>x. x\<lparr>KEY_COOKIE := Some cookie\<rparr>) s1)))"

text \<open>The loop of \<open>kms_http_ep_server_check_cookie\<close> over the request's cookies.\<close>

fun check_cookie_loop :: "SoupCookie \<Rightarrow> (string \<times> string) list \<Rightarrow> bool" where
  "check_cookie_loop cookie [] = False"
| "check_cookie_loop cookie (c # e) =
     (if cookie_name cookie \<noteq> fst c then check_cookie_loop cookie e
      else if cookie_value cookie = snd c then True
      else check_cookie_loop cookie e)"

definition kms_http_ep_server_check_cookie :: "int \<Rightarrow> SoupCookie \<Rightarrow> nat \<Rightarrow> KmsHttpEPServer \<Rightarrow> bool" where
  "kms_http_ep_server_check_cookie now cookie msg s =
     (if cookie_has_expired now cookie then False
      else
        (let cookies = request_cookies (msgs s msg) in
         if cookies = [] then False
         else check_cookie_loop cookie cookies))"

definition kms_http_ep_server_manage_cookie_session ::
  "int \<Rightarrow> string \<Rightarrow> nat \<Rightarrow> nat \<Rightarrow> string \<Rightarrow> KmsHttpEPServer \<Rightarrow> error + (bool \<times> KmsHttpEPServer)" where
  "kms_http_ep_server_manage_cookie_session now id_str httpep msg path s =
     (case KEY_COOKIE (httpeps s httpep) of
        Some cookie \<Rightarrow> Inr (kms_http_ep_server_check_cookie now cookie msg s, s)
      | None \<Rightarrow>
          ebind (kms_http_ep_server_set_cookie now id_str httpep msg path s) (\<lambda>s1. Inr (True, s1)))"

text \<open>
  \<open>got_headers_handler\<close>, run once for every request when its headers have arrived.
\<close>

definition got_headers_handler :: "int \<Rightarrow> string \<Rightarrow> nat \<Rightarrow> KmsHttpEPServer \<Rightarrow> error + KmsHttpEPServer" where
  "got_headers_handler now id_str msg s =
     (let path = msg_path (msgs s msg) in
      case g_hash_table_lookup (handlers s) path of
        None \<Rightarrow> Inr (soup_message_set_status msg SOUP_STATUS_NOT_FOUND s)
      | Some httpep \<Rightarrow>
          ebind (kms_http_ep_server_manage_cookie_session now id_str httpep msg path s) (\<lambda>(ok, s1).
            if \<not> ok then Inr (soup_message_set_status msg SOUP_STATUS_BAD_REQUEST s1)
            else
              ebind (set_KEY_MESSAGE httpep (Some msg) (remove_cookie_timeout httpep s1)) (\<lambda>s2.
                let s3 = upd_msg msg (\<lambda>x. x\<lparr>KEY_HTTP_EP_SERVER := True\<rparr>) s2 in
                if msg_method (msgs s3 msg) = SOUP_METHOD_GET then
                  Inr (g_signal_emit (ACTION_REQUESTED path KMS_HTTP_END_POINT_ACTION_GET)
                        (kms_http_ep_server_get_handler msg httpep s3))
                else if msg_method (msgs s3 msg) = SOUP_METHOD_POST then
                  ebind (kms_http_ep_server_post_handler msg httpep s3) (\<lambda>s4.
                    Inr (g_signal_emit (ACTION_REQUESTED path KMS_HTTP_END_POINT_ACTION_POST) s4))
                else Inr (soup_message_set_status msg SOUP_STATUS_METHOD_NOT_ALLOWED s3))))"

text \<open>
  \<open>kms_http_ep_server_register_end_point_impl\<close>: \<open>is_httpendpoint\<close> says that the
  \<open>httpendpoint\<close> factory exists and the element is of its type; \<open>uuid_str\<close> is
  the text of the generated UUID. The result is the URL, or \<open>NULL\<close>. The URL that is
  returned is the string that was inserted as the key, which the table owns.
\<close>

definition add_guint_param_lifetime :: "nat \<Rightarrow> nat \<Rightarrow> KmsHttpEPServer \<Rightarrow> KmsHttpEPServer" where
  "add_guint_param_lifetime httpep val s = upd_ep httpep (\<lambda>x. x\<lparr>KEY_PARAM_LIFETIME := Some val\<rparr>) s"

definition add_guint_param_timeout :: "nat \<Rightarrow> nat \<Rightarrow> KmsHttpEPServer \<Rightarrow> KmsHttpEPServer" where
  "add_guint_param_timeout httpep val s = upd_ep httpep (\<lambda>x. x\<lparr>KEY_PARAM_TIMEOUT := Some val\<rparr>) s"

definition kms_http_ep_server_register_end_point_impl ::
  "nat \<Rightarrow> bool \<Rightarrow> string \<Rightarrow> nat \<Rightarrow> nat \<Rightarrow> KmsHttpEPServer \<Rightarrow> string option \<times> KmsHttpEPServer" where
  "kms_http_ep_server_register_end_point_impl endpoint is_httpendpoint uuid_str lifetime timeout s =
     (if \<not> is_httpendpoint then (None, s)
      else
        (let url = ''/'' @ uuid_str;
             (ok, s1) = kms_http_ep_server_register_handler url endpoint s
         in if \<not> ok then (None, s1)
            else (Some url,
                  add_guint_param_timeout endpoint timeout
                    (add_guint_param_lifetime endpoint lifetime s1))))"

text \<open>
  \<open>kms_http_ep_server_unregister_end_point_impl\<close>. The table was made with
  \<open>g_free\<close> as the destroy function of its keys, so \<open>g_hash_table_remove\<close> releases
  the key string, and \<open>emit_removed_url_signal\<close> reads \<open>uri\<close> after that.
  \<open>uri_is_key\<close> says that the caller passes the key string itself (the URL that
  \<open>kms_http_ep_server_register_end_point_impl\<close> returned) and not another string with
  the same text.
\<close>

definition kms_http_ep_server_unregister_end_point_impl ::
  "string \<Rightarrow> bool \<Rightarrow> KmsHttpEPServer \<Rightarrow> error + (bool \<times> KmsHttpEPServer)" where
  "kms_http_ep_server_unregister_end_point_impl uri uri_is_key s =
     (case handlers s of
        None \<Rightarrow> Inr (False, s)
      | Some h \<Rightarrow>
          (case map_of h uri of
             None \<Rightarrow> Inr (False, s)
           | Some httpep \<Rightarrow>
               ebind (set_KEY_MESSAGE httpep None (remove_cookie_timeout httpep s)) (\<lambda>s1.
                 let s2 = s1\<lparr>handlers := map_option (\<lambda>h1. g_hash_table_remove h1 uri) (handlers s1)\<rparr>
                 in if uri_is_key then Inl UseAfterFree
                    else Inr (True, emit_removed_url_signal uri s2))))"

section \<open>Sequences of calls and sample objects\<close>

text \<open>
  A sequence of calls of the registry: each call runs on the state the one before left;
  the first failure ends the run.
\<close>

datatype registry_call = Register string nat | Unregister string bool

fun registry_calls :: "registry_call list \<Rightarrow> KmsHttpEPServer \<Rightarrow> error + KmsHttpEPServer" where
  "registry_calls [] s = Inr s"
| "registry_calls (Register uri endpoint # cs) s =
     registry_calls cs (snd (kms_http_ep_server_register_handler uri endpoint s))"
| "registry_calls (Unregister uri uri_is_key # cs) s =
     ebind (kms_http_ep_server_unregister_end_point_impl uri uri_is_key s)
       (\<lambda>(ok, s1). registry_calls cs s1)"

text \<open>The idle tasks of the main loop, run one after the other.\<close>

fun run_idle_tasks :: "sample_data list \<Rightarrow> KmsHttpEPServer \<Rightarrow> error + KmsHttpEPServer" where
  "run_idle_tasks [] s = Inr s"
| "run_idle_tasks (sdata # tasks) s = ebind (send_buffer_cb sdata s) (run_idle_tasks tasks)"

text \<open>
  Sample objects: an endpoint and a message as they are created, and a server just
  after \<open>kms_http_ep_server_init\<close> and start, with nothing registered.
\<close>

definition new_httpep :: HttpEP where
  "new_httpep =
     \<lparr>ep_start = False, ep_handlers = [], ep_pushed = [], ep_eos = False, KEY_COOKIE = None,
      KEY_TIMEOUT_ID = None, KEY_MESSAGE = None, KEY_PARAM_TIMEOUT = None,
      KEY_PARAM_LIFETIME = None\<rparr>"

definition new_request ::
  "string \<Rightarrow> string \<Rightarrow> (string \<times> string) list \<Rightarrow> (string \<times> (string \<rightharpoonup> string)) option \<Rightarrow> SoupMessage" where
  "new_request m path cookies content_type =
     \<lparr>msg_method = m, msg_path = path, request_cookies = cookies,
      request_content_type = content_type, request_accumulate = True, status_code = 0,
      response_headers = [], response_chunked = False, response_body = [],
      response_complete = False, io_paused = False, msg_handlers = [],
      KEY_HTTP_EP_SERVER = False, KEY_FINISHED = None, KEY_BOUNDARY = None,
      KEY_NEW_SAMPLE_HANDLER_ID = None, KEY_GOT_CHUNK_HANDLER_ID = None,
      KEY_FINISHED_HANDLER_ID = None, KEY_EOS_HANDLER_ID = None\<rparr>"

definition new_server :: KmsHttpEPServer where
  "new_server =
     \<lparr>handlers = Some [], announcedAddr = Some ''192.0.2.1'', server_started = True,
      server_quit = False, httpeps = (\<lambda>_. new_httpep),
      msgs = (\<lambda>_. new_request [] [] [] None), timeouts = [], idle_tasks = [], next_id = 1,
      emitted = []\<rparr>"

text \<open>A request arrives: libsoup creates the message object \<open>m\<close>.\<close>

definition request_started :: "nat \<Rightarrow> SoupMessage \<Rightarrow> KmsHttpEPServer \<Rightarrow> KmsHttpEPServer" where
  "request_started m r s = s\<lparr>msgs := (msgs s)(m := r)\<rparr>"

text \<open>The state of a call that is known to return.\<close>

definition result_of :: "error + 'a \<Rightarrow> 'a" where
  "result_of r = (case r of Inr v \<Rightarrow> v)"

text \<open>A run of the registry: \<open>/u\<close> is registered, then three more calls follow.\<close>

definition reg_w1 :: KmsHttpEPServer where
  "reg_w1 = snd (kms_http_ep_server_register_handler ''/u'' 7 new_server)"

definition reg_w2 :: KmsHttpEPServer where
  "reg_w2 = result_of (registry_calls [Register ''/v'' 8, Register ''/u'' 9, Unregister ''/v'' False] reg_w1)"

text \<open>
  The server after \<open>kms_http_ep_server_stop_impl\<close>, and the state that a first
  registration of endpoint 8 with the UUID text \<open>v\<close> leaves on it.
\<close>

definition srv_stopped :: KmsHttpEPServer where
  "srv_stopped = kms_http_ep_server_stop_impl new_server"

definition srv_stopped1 :: KmsHttpEPServer where
  "srv_stopped1 = snd (kms_http_ep_server_register_end_point_impl 8 True ''v'' 60 5 srv_stopped)"

text \<open>
  A server with endpoint 7 registered at \<open>/u\<close> (cookie lifetime 60 s, idle timeout
  5 s), and the same server after the headers of a first \<open>GET /u\<close> (message 1, at
  time 100) have been handled; a write task for that message.
\<close>

definition srv_u :: KmsHttpEPServer where
  "srv_u = snd (kms_http_ep_server_register_end_point_impl 7 True ''u'' 60 5 new_server)"

definition get1 :: KmsHttpEPServer where
  "get1 = result_of (got_headers_handler 100 ''42'' 1
            (request_started 1 (new_request ''GET'' ''/u'' [] None) srv_u))"

definition task1 :: sample_data where
  "task1 = \<lparr>sd_sample = Some (Buffer True ''abc''), sd_msg = 1\<rparr>"

text \<open>The cookie that the first \<open>GET /u\<close> is given.\<close>

definition cookie42 :: SoupCookie where
  "cookie42 = soup_cookie_new 100 COOKIE_NAME ''42'' (Some ''192.0.2.1'') ''/u'' 60"

text \<open>
  Requests on \<open>/u\<close> of the server \<open>srv_u\<close>: a first \<open>PUT\<close> and the state
  it leaves; a \<open>PUT\<close> with a wrong cookie value after the first \<open>GET\<close>; a first
  \<open>POST\<close> with no content type; and one with the content type \<open>multipart/\<close> and no
  boundary parameter, with the state it leaves.
\<close>

definition put_req :: KmsHttpEPServer where
  "put_req = request_started 1 (new_request ''PUT'' ''/u'' [] None) srv_u"

definition put1 :: KmsHttpEPServer where
  "put1 = result_of (got_headers_handler 100 ''42'' 1 put_req)"


definition post_req :: KmsHttpEPServer where
  "post_req = request_started 1 (new_request ''POST'' ''/u'' [] None) srv_u"

definition post_req_mp :: KmsHttpEPServer where
  "post_req_mp = request_started 1 (new_request ''POST'' ''/u'' [] (Some (''multipart/'', Map.empty))) srv_u"

definition post1_mp :: KmsHttpEPServer where
  "post1_mp = result_of (got_headers_handler 100 ''42'' 1 post_req_mp)"

text \<open>
  A first \<open>POST /u\<close> with the content type \<open>multipart/form-data\<close> and no
  boundary, one with \<open>multipart/x; boundary=XYZ\<close> and a one-part body for it; a server
  whose endpoint has a lifetime and an idle timeout of 5000000 s, its first \<open>GET\<close> at
  time 100 and the end of that transfer at time 110.
\<close>

definition post_multipart :: KmsHttpEPServer where
  "post_multipart = request_started 1
     (new_request ''POST'' ''/u'' [] (Some (''multipart/form-data'', Map.empty))) srv_u"

definition post_multipart1 :: KmsHttpEPServer where
  "post_multipart1 = result_of (got_headers_handler 100 ''42'' 1 post_multipart)"

definition post_xyz :: KmsHttpEPServer where
  "post_xyz = request_started 1
     (new_request ''POST'' ''/u'' [] (Some (''multipart/x'', [''boundary'' \<mapsto> ''XYZ'']))) srv_u"

definition post_xyz1 :: KmsHttpEPServer where
  "post_xyz1 = result_of (got_headers_handler 100 ''42'' 1 post_xyz)"

definition body_xyz :: string where
  "body_xyz = ''--XYZ'' @ [CR, LF] @ ''H: v'' @ [CR, LF, CR, LF] @ ''payload'' @ [CR, LF] @ ''--XYZ--'' @ [CR, LF]"

definition srv_big :: KmsHttpEPServer where
  "srv_big = snd (kms_http_ep_server_register_end_point_impl 7 True ''u'' 5000000 5000000 new_server)"

definition get_big :: KmsHttpEPServer where
  "get_big = result_of (got_headers_handler 100 ''42'' 1
               (request_started 1 (new_request ''GET'' ''/u'' [] None) srv_big))"

definition done_big :: KmsHttpEPServer where
  "done_big = result_of (soup_message_finished 110 1 get_big)"

text \<open>The first \<open>GET /u\<close> of \<open>get1\<close> ends at time 110.\<close>

definition done1 :: KmsHttpEPServer where
  "done1 = result_of (soup_message_finished 110 1 get1)"

text \<open>
  A server whose endpoint is registered with the lifetime 4294967295, the largest
  \<open>guint\<close>; its first \<open>GET /u\<close> at time 100, the cookie that request is given, and a
  second \<open>GET /u\<close> that presents this cookie.
\<close>

definition srv_forever :: KmsHttpEPServer where
  "srv_forever = snd (kms_http_ep_server_register_end_point_impl 7 True ''u'' 4294967295 5 new_server)"

definition get_forever :: KmsHttpEPServer where
  "get_forever = result_of (got_headers_handler 100 ''42'' 1
                   (request_started 1 (new_request ''GET'' ''/u'' [] None) srv_forever))"

definition cookie_forever :: SoupCookie where
  "cookie_forever = soup_cookie_new 100 COOKIE_NAME ''42'' (Some ''192.0.2.1'') ''/u'' (- 1)"

definition get_forever2 :: KmsHttpEPServer where
  "get_forever2 = request_started 2
     (new_request ''GET'' ''/u'' [(''HttpEPCookie'', ''42'')] None) get_forever"

section \<open>What the calls leave unchanged\<close>

lemma handlers_upd_msg [simp]: "handlers (upd_msg m f s) = handlers s"
  by (simp add: upd_msg_def)

lemma handlers_upd_ep [simp]: "handlers (upd_ep e f s) = handlers s"
  by (simp add: upd_ep_def)

lemma handlers_g_signal_emit [simp]: "handlers (g_signal_emit sig s) = handlers s"
  by (simp add: g_signal_emit_def)

lemma handlers_g_source_remove [simp]: "handlers (g_source_remove sid s) = handlers s"
  by (simp add: g_source_remove_def)

lemma handlers_remove_cookie_timeout [simp]: "handlers (remove_cookie_timeout e s) = handlers s"
  by (simp add: remove_cookie_timeout_def split: option.splits)

lemma handlers_msg_signal_handler_disconnect [simp]:
  "handlers (msg_signal_handler_disconnect m hid s) = handlers s"
  by (simp add: msg_signal_handler_disconnect_def)

lemma handlers_ep_signal_handler_disconnect [simp]:
  "handlers (ep_signal_handler_disconnect e hid s) = handlers s"
  by (simp add: ep_signal_handler_disconnect_def)

lemma handlers_disconnect_eos_new_sample_signals:
  "disconnect_eos_new_sample_signals msg s = Inr s' \<Longrightarrow> handlers s' = handlers s"
  by (auto simp: disconnect_eos_new_sample_signals_def split: if_splits option.splits)

lemma handlers_destroy_pending_message:
  "destroy_pending_message msg s = Inr s' \<Longrightarrow> handlers s' = handlers s"
  by (auto simp: destroy_pending_message_def ebind_eq_Inr Let_def
      dest!: handlers_disconnect_eos_new_sample_signals split: if_splits option.splits)

lemma handlers_set_KEY_MESSAGE:
  "set_KEY_MESSAGE e new s = Inr s' \<Longrightarrow> handlers s' = handlers s"
  by (auto simp: set_KEY_MESSAGE_def Let_def dest!: handlers_destroy_pending_message
      split: option.splits)

section \<open>The registry\<close>

lemma map_of_g_hash_table_remove:
  "map_of (g_hash_table_remove h k) k' = (if k' = k then None else map_of h k')"
  by (induction h) (auto simp: g_hash_table_remove_def)

lemma map_of_g_hash_table_insert:
  "map_of (g_hash_table_remove h k @ [(k, v)]) k' = (if k' = k then Some v else map_of h k')"
  by (simp add: map_add_def map_of_g_hash_table_remove split: option.splits)

lemma register_handler_table:
  "handlers s = Some h \<Longrightarrow>
   kms_http_ep_server_register_handler uri ep s =
     (if map_of h uri = None
      then (True, s\<lparr>handlers := Some (g_hash_table_remove h uri @ [(uri, ep)])\<rparr>)
      else (False, s))"
  by (auto simp: kms_http_ep_server_register_handler_def g_hash_table_lookup_def
      g_hash_table_insert_def split: option.splits)

text \<open>On a \<open>NULL\<close> table every registration reports success and changes nothing.\<close>

lemma register_handler_no_table:
  "handlers s = None \<Longrightarrow> kms_http_ep_server_register_handler uri ep s = (True, s)"
  by (simp add: kms_http_ep_server_register_handler_def g_hash_table_lookup_def
      g_hash_table_insert_def)

lemma unregister_Inr:
  "kms_http_ep_server_unregister_end_point_impl uri k s = Inr (ok, s') \<Longrightarrow>
     (ok \<longleftrightarrow> (\<exists>h e. handlers s = Some h \<and> map_of h uri = Some e)) \<and>
     handlers s' = (if ok then map_option (\<lambda>h. g_hash_table_remove h uri) (handlers s) else handlers s)"
  by (auto simp: kms_http_ep_server_unregister_end_point_impl_def ebind_eq_Inr Let_def
      emit_removed_url_signal_def dest!: handlers_set_KEY_MESSAGE split: option.splits if_splits)

text \<open>A registered path stays registered to its endpoint through every call that
  does not unregister it.\<close>

lemma registry_calls_keep:
  "registry_calls cs s = Inr s' \<Longrightarrow> \<forall>k. Unregister p k \<notin> set cs \<Longrightarrow>
   g_hash_table_lookup (handlers s) p = Some e \<Longrightarrow>
   g_hash_table_lookup (handlers s') p = Some e"
proof (induction cs arbitrary: s)
  case Nil
  then show ?case by simp
next
  case (Cons c cs)
  from Cons.prems(2) have rest_ok: "\<forall>k. Unregister p k \<notin> set cs" by simp
  from Cons.prems(3) obtain h where h: "handlers s = Some h" and m: "map_of h p = Some e"
    by (auto simp: g_hash_table_lookup_def split: option.splits)
  show ?case
  proof (cases c)
    case (Register uri endpoint)
    define s1 where "s1 = snd (kms_http_ep_server_register_handler uri endpoint s)"
    from Register Cons.prems(1) have rest: "registry_calls cs s1 = Inr s'"
      by (simp add: s1_def)
    from h m have "g_hash_table_lookup (handlers s1) p = Some e"
      by (auto simp: s1_def register_handler_table g_hash_table_lookup_def
          map_of_g_hash_table_insert simp del: map_of_append)
    from Cons.IH [OF rest rest_ok this] show ?thesis .
  next
    case (Unregister uri k)
    with Cons.prems(2) have ne: "uri \<noteq> p" by auto
    from Unregister Cons.prems(1) obtain ok s1 where
      u: "kms_http_ep_server_unregister_end_point_impl uri k s = Inr (ok, s1)"
      and rest: "registry_calls cs s1 = Inr s'"
      by (auto simp: ebind_eq_Inr)
    from unregister_Inr [OF u] h m ne
    have "g_hash_table_lookup (handlers s1) p = Some e"
      by (auto simp: g_hash_table_lookup_def map_of_g_hash_table_remove split: if_splits)
    from Cons.IH [OF rest rest_ok this] show ?thesis .
  qed
qed

lemma register_handler_collision:
  "g_hash_table_lookup (handlers s) p = Some e \<Longrightarrow>
   kms_http_ep_server_register_handler p e2 s = (False, s)"
  by (simp add: kms_http_ep_server_register_handler_def)

lemma register_handler_free:
  "handlers s = Some h \<Longrightarrow> map_of h p = None \<Longrightarrow>
   \<exists>s'. kms_http_ep_server_register_handler p e2 s = (True, s') \<and>
        g_hash_table_lookup (handlers s') p = Some e2"
  by (simp add: register_handler_table g_hash_table_lookup_def map_of_g_hash_table_insert
      del: map_of_append)

text \<open>
  The registry while the handler table exists. After
  \<open>kms_http_ep_server_register_handler\<close> has registered \<open>p\<close> for \<open>e\<close>, and
  through any further registrations and any unregistrations of other paths: a lookup of
  \<open>p\<close> gives \<open>e\<close>; registering \<open>p\<close> again fails and leaves the state as it is,
  and \<open>kms_http_ep_server_register_end_point_impl\<close> returns no URL when the generated
  path is \<open>p\<close>; once \<open>p\<close> is unregistered, the entry is gone and \<open>p\<close> can be
  registered again.
\<close>

theorem registration_exclusive_with_table:
  assumes "handlers s = Some h"
    and "kms_http_ep_server_register_handler p e s = (True, s1)"
    and "registry_calls cs s1 = Inr s2"
    and "\<forall>k. Unregister p k \<notin> set cs"
  shows "g_hash_table_lookup (handlers s2) p = Some e \<and>
         kms_http_ep_server_register_handler p e2 s2 = (False, s2) \<and>
         (\<forall>uuid_str lifetime timeout. p = ''/'' @ uuid_str \<longrightarrow>
            kms_http_ep_server_register_end_point_impl e2 True uuid_str lifetime timeout s2
              = (None, s2)) \<and>
         (\<forall>k ok s3. kms_http_ep_server_unregister_end_point_impl p k s2 = Inr (ok, s3) \<longrightarrow>
            ok \<and> g_hash_table_lookup (handlers s3) p = None \<and>
            (\<exists>s4. kms_http_ep_server_register_handler p e2 s3 = (True, s4) \<and>
                  g_hash_table_lookup (handlers s4) p = Some e2))"
proof -
  from assms(1,2) have "g_hash_table_lookup (handlers s1) p = Some e"
    by (auto simp: register_handler_table g_hash_table_lookup_def map_of_g_hash_table_insert
        simp del: map_of_append split: if_splits)
  from registry_calls_keep [OF assms(3) assms(4) this]
  have look: "g_hash_table_lookup (handlers s2) p = Some e" .
  then obtain h2 where h2: "handlers s2 = Some h2" and m2: "map_of h2 p = Some e"
    by (auto simp: g_hash_table_lookup_def split: option.splits)
  have coll: "kms_http_ep_server_register_handler p e2 s2 = (False, s2)"
    by (rule register_handler_collision [OF look])
  have url: "kms_http_ep_server_register_end_point_impl e2 True uuid_str lifetime timeout s2
               = (None, s2)" if "p = ''/'' @ uuid_str" for uuid_str lifetime timeout
    using coll that by (simp add: kms_http_ep_server_register_end_point_impl_def)
  have unreg: "ok \<and> g_hash_table_lookup (handlers s3) p = None \<and>
            (\<exists>s4. kms_http_ep_server_register_handler p e2 s3 = (True, s4) \<and>
                  g_hash_table_lookup (handlers s4) p = Some e2)"
    if u: "kms_http_ep_server_unregister_end_point_impl p k s2 = Inr (ok, s3)" for k ok s3
  proof -
    from unregister_Inr [OF u] h2 m2
    have ok: ok and h3: "handlers s3 = Some (g_hash_table_remove h2 p)"
      by auto
    have gone: "map_of (g_hash_table_remove h2 p) p = None"
      by (simp add: map_of_g_hash_table_remove)
    from register_handler_free [OF h3 gone, of e2] ok h3 gone show ?thesis
      by (simp add: g_hash_table_lookup_def)
  qed
  from look coll url unreg show ?thesis by blast
qed

lemmas registry_defs = kms_http_ep_server_register_handler_def g_hash_table_lookup_def
  g_hash_table_insert_def g_hash_table_remove_def kms_http_ep_server_unregister_end_point_impl_def
  remove_cookie_timeout_def set_KEY_MESSAGE_def emit_removed_url_signal_def g_signal_emit_def
  upd_ep_def result_of_def new_server_def new_httpep_def

theorem registration_exclusive_with_table_witness:
  "kms_http_ep_server_register_handler ''/u'' 7 new_server = (True, reg_w1) \<and>
   registry_calls [Register ''/v'' 8, Register ''/u'' 9, Unregister ''/v'' False] reg_w1 = Inr reg_w2 \<and>
   g_hash_table_lookup (handlers reg_w2) ''/u'' = Some 7 \<and>
   kms_http_ep_server_register_handler ''/u'' 9 reg_w2 = (False, reg_w2) \<and>
   kms_http_ep_server_register_end_point_impl 9 True ''u'' 60 5 reg_w2 = (None, reg_w2) \<and>
   (\<exists>s3. kms_http_ep_server_unregister_end_point_impl ''/u'' False reg_w2 = Inr (True, s3) \<and>
         g_hash_table_lookup (handlers s3) ''/u'' = None)"
proof -
  have h0: "handlers new_server = Some []"
    by (simp add: new_server_def)
  have h1: "kms_http_ep_server_register_handler ''/u'' 7 new_server = (True, reg_w1)"
    by (simp add: reg_w1_def registry_defs)
  have h2: "registry_calls [Register ''/v'' 8, Register ''/u'' 9, Unregister ''/v'' False] reg_w1 = Inr reg_w2"
    by (simp add: reg_w2_def reg_w1_def registry_defs)
  have h3: "\<forall>k. Unregister ''/u'' k \<notin> set [Register ''/v'' 8, Register ''/u'' 9, Unregister ''/v'' False]"
    by simp
  note T = registration_exclusive_with_table [OF h0 h1 h2 h3, of 9]
  obtain s3 where u: "kms_http_ep_server_unregister_end_point_impl ''/u'' False reg_w2 = Inr (True, s3)"
    by (simp add: reg_w2_def reg_w1_def registry_defs)
  from T u have "g_hash_table_lookup (handlers s3) ''/u'' = None" by blast
  with T h1 h2 u show ?thesis by auto
qed

lemmas server_defs = registry_defs
  kms_http_ep_server_register_end_point_impl_def add_guint_param_lifetime_def
  add_guint_param_timeout_def got_headers_handler_def request_started_def new_request_def
  kms_http_ep_server_manage_cookie_session_def kms_http_ep_server_set_cookie_def
  kms_http_ep_server_check_cookie_def cookie_has_expired_def soup_date_is_past_def
  soup_date_to_time_t_def
  soup_cookie_new_def guint_to_int_def COOKIE_NAME_def upd_msg_def
  SOUP_METHOD_GET_def SOUP_METHOD_POST_def kms_http_ep_server_get_handler_def
  kms_http_ep_server_post_handler_def soup_message_set_status_def msg_add_finished_property_def
  msg_signal_connect_def ep_signal_connect_def SOUP_STATUS_OK_def SOUP_STATUS_BAD_REQUEST_def
  SOUP_STATUS_NOT_FOUND_def SOUP_STATUS_METHOD_NOT_ALLOWED_def SOUP_STATUS_NOT_ACCEPTABLE_def
  destroy_pending_message_def disconnect_eos_new_sample_signals_def
  kms_http_ep_server_get_ep_from_msg_def msg_signal_handler_disconnect_def
  ep_signal_handler_disconnect_def g_str_has_prefix_def g_source_remove_def Let_def

section \<open>The write task\<close>

lemma send_buffer_cb_finished:
  "KEY_FINISHED (msgs s (sd_msg sdata)) = Some True \<Longrightarrow> send_buffer_cb sdata s = Inr s"
  by (simp add: send_buffer_cb_def msg_has_finished_def)

lemma send_buffer_cb_writes:
  "KEY_FINISHED (msgs s (sd_msg sdata)) = Some False \<Longrightarrow> sd_sample sdata = Some (Buffer True bytes) \<Longrightarrow>
   send_buffer_cb sdata s =
     Inr (upd_msg (sd_msg sdata)
            (\<lambda>x. x\<lparr>response_body := response_body x @ [bytes], io_paused := False\<rparr>) s)"
  by (simp add: send_buffer_cb_def msg_has_finished_def)

lemma send_buffer_cb_keeps_finished:
  "send_buffer_cb sdata s = Inr s' \<Longrightarrow> KEY_FINISHED (msgs s' m) = KEY_FINISHED (msgs s m)"
  by (auto simp: send_buffer_cb_def msg_has_finished_def upd_msg_def
      split: option.splits if_splits)

lemma send_buffer_cb_finished_body:
  "send_buffer_cb sdata s = Inr s' \<Longrightarrow> KEY_FINISHED (msgs s m) = Some True \<Longrightarrow>
   response_body (msgs s' m) = response_body (msgs s m)"
  by (auto simp: send_buffer_cb_def msg_has_finished_def upd_msg_def
      split: option.splits if_splits)

lemma run_idle_tasks_finished_body:
  "run_idle_tasks tasks s = Inr s' \<Longrightarrow> KEY_FINISHED (msgs s m) = Some True \<Longrightarrow>
   response_body (msgs s' m) = response_body (msgs s m) \<and> KEY_FINISHED (msgs s' m) = Some True"
proof (induction tasks arbitrary: s)
  case Nil
  then show ?case by simp
next
  case (Cons t tasks)
  from Cons.prems(1) obtain s1 where t: "send_buffer_cb t s = Inr s1"
    and rest: "run_idle_tasks tasks s1 = Inr s'"
    by (auto simp: ebind_eq_Inr)
  from send_buffer_cb_keeps_finished [OF t, of m] Cons.prems(2)
  have f: "KEY_FINISHED (msgs s1 m) = Some True" by simp
  from Cons.IH [OF rest f] send_buffer_cb_finished_body [OF t Cons.prems(2)]
  show ?case by simp
qed

lemma msg_finished_sets:
  "msg_finished m s = Inr s1 \<Longrightarrow> KEY_FINISHED (msgs s1 m) = Some True"
  by (auto simp: msg_finished_def upd_msg_def split: option.splits)

text \<open>
  C7. \<open>send_buffer_cb\<close> reads the message's finished flag first. With the flag set it
  returns the state as it is: nothing is appended. With the flag clear and a sample whose
  buffer maps, it appends the bytes to the response body and unpauses the message. So
  once \<open>msg_finished\<close> has set the flag of a message, no run of write tasks, for this
  or any other message, changes its response body.
\<close>

theorem write_task_rechecks_finished:
  "(KEY_FINISHED (msgs s (sd_msg sdata)) = Some True \<longrightarrow> send_buffer_cb sdata s = Inr s) \<and>
   (KEY_FINISHED (msgs s (sd_msg sdata)) = Some False \<longrightarrow> sd_sample sdata = Some (Buffer True bytes) \<longrightarrow>
      send_buffer_cb sdata s =
        Inr (upd_msg (sd_msg sdata)
               (\<lambda>x. x\<lparr>response_body := response_body x @ [bytes], io_paused := False\<rparr>) s)) \<and>
   (\<forall>s1 tasks s'. msg_finished m s = Inr s1 \<longrightarrow> run_idle_tasks tasks s1 = Inr s' \<longrightarrow>
      response_body (msgs s' m) = response_body (msgs s1 m))"
  using send_buffer_cb_finished [of s sdata] send_buffer_cb_writes [of s sdata bytes]
    run_idle_tasks_finished_body msg_finished_sets
  by blast

theorem write_task_rechecks_finished_witness:
  "KEY_FINISHED (msgs get1 1) = Some False \<and>
   send_buffer_cb task1 get1 =
     Inr (upd_msg 1 (\<lambda>x. x\<lparr>response_body := response_body x @ [''abc''], io_paused := False\<rparr>) get1) \<and>
   (\<exists>s1. msg_finished 1 get1 = Inr s1 \<and> KEY_FINISHED (msgs s1 1) = Some True \<and>
      send_buffer_cb task1 s1 = Inr s1 \<and>
      (\<exists>s'. run_idle_tasks [task1, task1] s1 = Inr s' \<and>
         response_body (msgs s' 1) = response_body (msgs s1 1)))"
proof -
  have f: "KEY_FINISHED (msgs get1 (sd_msg task1)) = Some False"
    by (simp add: get1_def srv_u_def task1_def server_defs)
  have b: "sd_sample task1 = Some (Buffer True ''abc'')"
    by (simp add: task1_def)
  obtain s1 where m: "msg_finished 1 get1 = Inr s1"
    using f by (simp add: msg_finished_def task1_def)
  then have t: "KEY_FINISHED (msgs s1 (sd_msg task1)) = Some True"
    by (auto simp: msg_finished_def upd_msg_def task1_def split: option.splits)
  from write_task_rechecks_finished [of s1 task1 "''abc''" 1] t
  have d: "send_buffer_cb task1 s1 = Inr s1" by blast
  then have r: "run_idle_tasks [task1, task1] s1 = Inr s1" by simp
  from write_task_rechecks_finished [of get1 task1 "''abc''" 1] f b
  have w: "send_buffer_cb task1 get1 =
     Inr (upd_msg (sd_msg task1) (\<lambda>x. x\<lparr>response_body := response_body x @ [''abc''], io_paused := False\<rparr>) get1)"
    by blast
  from f w m t d r show ?thesis by (auto simp: task1_def)
qed

section \<open>Teardown of a bound message\<close>

lemmas teardown_defs = destroy_pending_message_def disconnect_eos_new_sample_signals_def
  msg_signal_handler_disconnect_def ep_signal_handler_disconnect_def upd_msg_def upd_ep_def
  ebind_eq_Inr Let_def

lemma destroy_pending_message_server:
  "destroy_pending_message m s = Inr s' \<Longrightarrow>
   emitted s' = emitted s \<and> timeouts s' = timeouts s \<and> next_id s' = next_id s \<and>
   idle_tasks s' = idle_tasks s \<and> announcedAddr s' = announcedAddr s"
  by (auto simp: teardown_defs split: if_splits option.splits)

lemma destroy_pending_message_msg:
  "destroy_pending_message m s = Inr s' \<Longrightarrow>
   status_code (msgs s' x) = status_code (msgs s x) \<and>
   response_headers (msgs s' x) = response_headers (msgs s x) \<and>
   response_body (msgs s' x) = response_body (msgs s x) \<and>
   msg_method (msgs s' x) = msg_method (msgs s x) \<and>
   msg_path (msgs s' x) = msg_path (msgs s x) \<and>
   request_cookies (msgs s' x) = request_cookies (msgs s x) \<and>
   request_content_type (msgs s' x) = request_content_type (msgs s x) \<and>
   KEY_HTTP_EP_SERVER (msgs s' x) = KEY_HTTP_EP_SERVER (msgs s x) \<and>
   KEY_FINISHED (msgs s' x) = KEY_FINISHED (msgs s x) \<and>
   KEY_BOUNDARY (msgs s' x) = KEY_BOUNDARY (msgs s x) \<and>
   KEY_NEW_SAMPLE_HANDLER_ID (msgs s' x) = KEY_NEW_SAMPLE_HANDLER_ID (msgs s x) \<and>
   KEY_GOT_CHUNK_HANDLER_ID (msgs s' x) = KEY_GOT_CHUNK_HANDLER_ID (msgs s x) \<and>
   KEY_FINISHED_HANDLER_ID (msgs s' x) = KEY_FINISHED_HANDLER_ID (msgs s x) \<and>
   KEY_EOS_HANDLER_ID (msgs s' x) = KEY_EOS_HANDLER_ID (msgs s x) \<and>
   set (msg_handlers (msgs s' x)) \<subseteq> set (msg_handlers (msgs s x))"
  by (auto simp: teardown_defs split: if_splits option.splits)

lemma destroy_pending_message_ep:
  "destroy_pending_message m s = Inr s' \<Longrightarrow>
   KEY_COOKIE (httpeps s' e) = KEY_COOKIE (httpeps s e) \<and>
   KEY_TIMEOUT_ID (httpeps s' e) = KEY_TIMEOUT_ID (httpeps s e) \<and>
   KEY_MESSAGE (httpeps s' e) = KEY_MESSAGE (httpeps s e) \<and>
   KEY_PARAM_TIMEOUT (httpeps s' e) = KEY_PARAM_TIMEOUT (httpeps s e) \<and>
   KEY_PARAM_LIFETIME (httpeps s' e) = KEY_PARAM_LIFETIME (httpeps s e) \<and>
   ep_pushed (httpeps s' e) = ep_pushed (httpeps s e) \<and>
   ep_eos (httpeps s' e) = ep_eos (httpeps s e) \<and>
   set (ep_handlers (httpeps s' e)) \<subseteq> set (ep_handlers (httpeps s e))"
  by (auto simp: teardown_defs kms_http_ep_server_get_ep_from_msg_def split: if_splits option.splits)

lemma set_KEY_MESSAGE_server:
  "set_KEY_MESSAGE httpep new s = Inr s' \<Longrightarrow>
   emitted s' = emitted s \<and> timeouts s' = timeouts s \<and> next_id s' = next_id s \<and>
   idle_tasks s' = idle_tasks s \<and> announcedAddr s' = announcedAddr s"
  by (auto simp: set_KEY_MESSAGE_def Let_def upd_ep_def dest!: destroy_pending_message_server
      split: option.splits)

lemma set_KEY_MESSAGE_msg:
  "set_KEY_MESSAGE httpep new s = Inr s' \<Longrightarrow>
   status_code (msgs s' x) = status_code (msgs s x) \<and>
   response_headers (msgs s' x) = response_headers (msgs s x) \<and>
   response_body (msgs s' x) = response_body (msgs s x) \<and>
   msg_method (msgs s' x) = msg_method (msgs s x) \<and>
   msg_path (msgs s' x) = msg_path (msgs s x) \<and>
   request_cookies (msgs s' x) = request_cookies (msgs s x) \<and>
   request_content_type (msgs s' x) = request_content_type (msgs s x) \<and>
   KEY_HTTP_EP_SERVER (msgs s' x) = KEY_HTTP_EP_SERVER (msgs s x) \<and>
   KEY_FINISHED (msgs s' x) = KEY_FINISHED (msgs s x) \<and>
   KEY_BOUNDARY (msgs s' x) = KEY_BOUNDARY (msgs s x) \<and>
   KEY_NEW_SAMPLE_HANDLER_ID (msgs s' x) = KEY_NEW_SAMPLE_HANDLER_ID (msgs s x) \<and>
   KEY_GOT_CHUNK_HANDLER_ID (msgs s' x) = KEY_GOT_CHUNK_HANDLER_ID (msgs s x) \<and>
   KEY_FINISHED_HANDLER_ID (msgs s' x) = KEY_FINISHED_HANDLER_ID (msgs s x) \<and>
   KEY_EOS_HANDLER_ID (msgs s' x) = KEY_EOS_HANDLER_ID (msgs s x) \<and>
   set (msg_handlers (msgs s' x)) \<subseteq> set (msg_handlers (msgs s x))"
proof (cases "KEY_MESSAGE (httpeps s httpep)")
  case None
  assume "set_KEY_MESSAGE httpep new s = Inr s'"
  with None show ?thesis by (auto simp: set_KEY_MESSAGE_def upd_ep_def)
next
  case (Some old)
  assume "set_KEY_MESSAGE httpep new s = Inr s'"
  with Some have "destroy_pending_message old (upd_ep httpep (\<lambda>x. x\<lparr>KEY_MESSAGE := new\<rparr>) s) = Inr s'"
    by (simp add: set_KEY_MESSAGE_def)
  from destroy_pending_message_msg [OF this, of x] show ?thesis
    by (simp add: upd_ep_def)
qed

lemma set_KEY_MESSAGE_ep:
  "set_KEY_MESSAGE httpep new s = Inr s' \<Longrightarrow>
   KEY_COOKIE (httpeps s' e) = KEY_COOKIE (httpeps s e) \<and>
   KEY_TIMEOUT_ID (httpeps s' e) = KEY_TIMEOUT_ID (httpeps s e) \<and>
   KEY_MESSAGE (httpeps s' e) = (if e = httpep then new else KEY_MESSAGE (httpeps s e)) \<and>
   KEY_PARAM_TIMEOUT (httpeps s' e) = KEY_PARAM_TIMEOUT (httpeps s e) \<and>
   KEY_PARAM_LIFETIME (httpeps s' e) = KEY_PARAM_LIFETIME (httpeps s e) \<and>
   ep_pushed (httpeps s' e) = ep_pushed (httpeps s e) \<and>
   ep_eos (httpeps s' e) = ep_eos (httpeps s e) \<and>
   set (ep_handlers (httpeps s' e)) \<subseteq> set (ep_handlers (httpeps s e))"
proof (cases "KEY_MESSAGE (httpeps s httpep)")
  case None
  assume "set_KEY_MESSAGE httpep new s = Inr s'"
  with None show ?thesis by (auto simp: set_KEY_MESSAGE_def upd_ep_def)
next
  case (Some old)
  assume "set_KEY_MESSAGE httpep new s = Inr s'"
  with Some have "destroy_pending_message old (upd_ep httpep (\<lambda>x. x\<lparr>KEY_MESSAGE := new\<rparr>) s) = Inr s'"
    by (simp add: set_KEY_MESSAGE_def)
  from destroy_pending_message_ep [OF this, of e] show ?thesis
    by (cases "e = httpep") (simp_all add: upd_ep_def)
qed

lemma set_KEY_MESSAGE_None:
  "KEY_MESSAGE (httpeps s httpep) = None \<Longrightarrow>
   set_KEY_MESSAGE httpep new s = Inr (upd_ep httpep (\<lambda>x. x\<lparr>KEY_MESSAGE := new\<rparr>) s)"
  by (simp add: set_KEY_MESSAGE_def)

section \<open>The cookie session\<close>

lemma check_cookie_loop_iff:
  "check_cookie_loop cookie cs \<longleftrightarrow>
     (\<exists>c \<in> set cs. fst c = cookie_name cookie \<and> snd c = cookie_value cookie)"
  by (induction cs) auto

lemma cookie_has_expired_dated:
  "cookie_expires cookie = Some t \<Longrightarrow> cookie_has_expired now cookie \<longleftrightarrow> t < now"
  by (simp add: cookie_has_expired_def soup_date_is_past_def)

text \<open>A cookie with no expiry date counts as expired at every time.\<close>

lemma cookie_has_expired_dateless:
  "cookie_expires cookie = None \<Longrightarrow> cookie_has_expired now cookie"
  by (simp add: cookie_has_expired_def soup_date_is_past_def)

lemma manage_cookie_session_existing:
  "KEY_COOKIE (httpeps s httpep) = Some cookie \<Longrightarrow>
   kms_http_ep_server_manage_cookie_session now id_str httpep msg path s =
     Inr (\<not> cookie_has_expired now cookie \<and> (\<exists>c \<in> set (request_cookies (msgs s msg)).
             fst c = cookie_name cookie \<and> snd c = cookie_value cookie), s)"
  by (auto simp: kms_http_ep_server_manage_cookie_session_def kms_http_ep_server_check_cookie_def
      check_cookie_loop_iff Let_def)

lemma manage_cookie_session_new:
  "KEY_COOKIE (httpeps s httpep) = None \<Longrightarrow> KEY_PARAM_LIFETIME (httpeps s httpep) = Some l \<Longrightarrow>
   kms_http_ep_server_manage_cookie_session now id_str httpep msg path s =
     Inr (True,
       upd_ep httpep (\<lambda>x. x\<lparr>KEY_COOKIE := Some (soup_cookie_new now COOKIE_NAME id_str
            (announcedAddr s) path (guint_to_int l))\<rparr>)
         (upd_msg msg (\<lambda>x. x\<lparr>response_headers := response_headers x @
            [(''Set-Cookie'', Set_Cookie_Header (soup_cookie_new now COOKIE_NAME id_str
                (announcedAddr s) path (guint_to_int l)))]\<rparr>) s))"
  by (simp add: kms_http_ep_server_manage_cookie_session_def kms_http_ep_server_set_cookie_def Let_def)

lemma manage_cookie_session_fields:
  "kms_http_ep_server_manage_cookie_session now id_str httpep msg path s = Inr (ok, s1) \<Longrightarrow>
   emitted s1 = emitted s \<and> timeouts s1 = timeouts s \<and> handlers s1 = handlers s \<and>
   msg_method (msgs s1 x) = msg_method (msgs s x) \<and>
   msg_path (msgs s1 x) = msg_path (msgs s x) \<and>
   request_content_type (msgs s1 x) = request_content_type (msgs s x) \<and>
   status_code (msgs s1 x) = status_code (msgs s x) \<and>
   msg_handlers (msgs s1 x) = msg_handlers (msgs s x) \<and>
   KEY_FINISHED (msgs s1 x) = KEY_FINISHED (msgs s x) \<and>
   KEY_BOUNDARY (msgs s1 x) = KEY_BOUNDARY (msgs s x) \<and>
   KEY_NEW_SAMPLE_HANDLER_ID (msgs s1 x) = KEY_NEW_SAMPLE_HANDLER_ID (msgs s x) \<and>
   KEY_GOT_CHUNK_HANDLER_ID (msgs s1 x) = KEY_GOT_CHUNK_HANDLER_ID (msgs s x) \<and>
   KEY_FINISHED_HANDLER_ID (msgs s1 x) = KEY_FINISHED_HANDLER_ID (msgs s x) \<and>
   KEY_EOS_HANDLER_ID (msgs s1 x) = KEY_EOS_HANDLER_ID (msgs s x) \<and>
   ep_handlers (httpeps s1 e) = ep_handlers (httpeps s e) \<and>
   KEY_MESSAGE (httpeps s1 e) = KEY_MESSAGE (httpeps s e) \<and>
   KEY_TIMEOUT_ID (httpeps s1 e) = KEY_TIMEOUT_ID (httpeps s e)"
  by (auto simp: kms_http_ep_server_manage_cookie_session_def kms_http_ep_server_set_cookie_def
      ebind_eq_Inr Let_def upd_msg_def upd_ep_def split: option.splits)

lemma remove_cookie_timeout_fields:
  "emitted (remove_cookie_timeout httpep s) = emitted s \<and>
   msgs (remove_cookie_timeout httpep s) = msgs s \<and>
   ep_handlers (httpeps (remove_cookie_timeout httpep s) e) = ep_handlers (httpeps s e) \<and>
   KEY_MESSAGE (httpeps (remove_cookie_timeout httpep s) e) = KEY_MESSAGE (httpeps s e) \<and>
   KEY_COOKIE (httpeps (remove_cookie_timeout httpep s) e) = KEY_COOKIE (httpeps s e) \<and>
   KEY_TIMEOUT_ID (httpeps (remove_cookie_timeout httpep s) httpep) = None"
  by (auto simp: remove_cookie_timeout_def upd_ep_def g_source_remove_def split: option.splits)

lemma remove_cookie_timeout_timeouts:
  "kms_http_ep_server_manage_cookie_session now id_str httpep msg path s = Inr (ok, s1) \<Longrightarrow>
   timeouts (remove_cookie_timeout httpep s1) = timeouts (remove_cookie_timeout httpep s)"
  using manage_cookie_session_fields [of now id_str httpep msg path s ok s1 msg httpep]
  by (simp add: remove_cookie_timeout_def upd_ep_def g_source_remove_def split: option.splits)

lemma got_headers_handler_admitted:
  assumes "handlers s = Some h" and "map_of h (msg_path (msgs s msg)) = Some httpep"
    and "kms_http_ep_server_manage_cookie_session now id_str httpep msg (msg_path (msgs s msg)) s = Inr (True, s1)"
  shows "got_headers_handler now id_str msg s =
     ebind (set_KEY_MESSAGE httpep (Some msg) (remove_cookie_timeout httpep s1)) (\<lambda>s2.
       let s3 = upd_msg msg (\<lambda>x. x\<lparr>KEY_HTTP_EP_SERVER := True\<rparr>) s2 in
       if msg_method (msgs s3 msg) = SOUP_METHOD_GET then
         Inr (g_signal_emit (ACTION_REQUESTED (msg_path (msgs s msg)) KMS_HTTP_END_POINT_ACTION_GET)
               (kms_http_ep_server_get_handler msg httpep s3))
       else if msg_method (msgs s3 msg) = SOUP_METHOD_POST then
         ebind (kms_http_ep_server_post_handler msg httpep s3) (\<lambda>s4.
           Inr (g_signal_emit
                 (ACTION_REQUESTED (msg_path (msgs s msg)) KMS_HTTP_END_POINT_ACTION_POST) s4))
       else Inr (soup_message_set_status msg SOUP_STATUS_METHOD_NOT_ALLOWED s3))"
  using assms
  by (simp add: got_headers_handler_def g_hash_table_lookup_def Let_def)

lemma got_headers_handler_rejected:
  assumes "handlers s = Some h" and "map_of h (msg_path (msgs s msg)) = Some httpep"
    and "kms_http_ep_server_manage_cookie_session now id_str httpep msg (msg_path (msgs s msg)) s = Inr (False, s1)"
  shows "got_headers_handler now id_str msg s =
           Inr (soup_message_set_status msg SOUP_STATUS_BAD_REQUEST s1)"
  using assms
  by (simp add: got_headers_handler_def g_hash_table_lookup_def Let_def)

text \<open>
  What a call of \<open>got_headers_handler\<close> that the session stage admits and that returns
  has done: the binding, then one of the three branches on the method, which the message
  still has as it arrived.
\<close>

lemma got_headers_handler_admitted_cases:
  assumes h: "handlers s = Some h" and r: "map_of h (msg_path (msgs s msg)) = Some httpep"
    and m: "kms_http_ep_server_manage_cookie_session now id_str httpep msg (msg_path (msgs s msg)) s = Inr (True, s1)"
    and g: "got_headers_handler now id_str msg s = Inr s'"
  shows "\<exists>s2. set_KEY_MESSAGE httpep (Some msg) (remove_cookie_timeout httpep s1) = Inr s2 \<and>
     (let s3 = upd_msg msg (\<lambda>x. x\<lparr>KEY_HTTP_EP_SERVER := True\<rparr>) s2 in
      msg_method (msgs s3 msg) = msg_method (msgs s msg) \<and>
      request_content_type (msgs s3 msg) = request_content_type (msgs s msg) \<and>
      (if msg_method (msgs s msg) = SOUP_METHOD_GET then
         s' = g_signal_emit (ACTION_REQUESTED (msg_path (msgs s msg)) KMS_HTTP_END_POINT_ACTION_GET)
               (kms_http_ep_server_get_handler msg httpep s3)
       else if msg_method (msgs s msg) = SOUP_METHOD_POST then
         (\<exists>s4. kms_http_ep_server_post_handler msg httpep s3 = Inr s4 \<and>
            s' = g_signal_emit
                   (ACTION_REQUESTED (msg_path (msgs s msg)) KMS_HTTP_END_POINT_ACTION_POST) s4)
       else s' = soup_message_set_status msg SOUP_STATUS_METHOD_NOT_ALLOWED s3))"
proof -
  from g got_headers_handler_admitted [OF h r m] obtain s2 where
    k: "set_KEY_MESSAGE httpep (Some msg) (remove_cookie_timeout httpep s1) = Inr s2"
    and s': "(let s3 = upd_msg msg (\<lambda>x. x\<lparr>KEY_HTTP_EP_SERVER := True\<rparr>) s2 in
       if msg_method (msgs s3 msg) = SOUP_METHOD_GET then
         Inr (g_signal_emit (ACTION_REQUESTED (msg_path (msgs s msg)) KMS_HTTP_END_POINT_ACTION_GET)
               (kms_http_ep_server_get_handler msg httpep s3))
       else if msg_method (msgs s3 msg) = SOUP_METHOD_POST then
         ebind (kms_http_ep_server_post_handler msg httpep s3) (\<lambda>s4.
           Inr (g_signal_emit
                 (ACTION_REQUESTED (msg_path (msgs s msg)) KMS_HTTP_END_POINT_ACTION_POST) s4))
       else Inr (soup_message_set_status msg SOUP_STATUS_METHOD_NOT_ALLOWED s3)) = Inr s'"
    by (auto simp: ebind_eq_Inr)
  define s3 where "s3 = upd_msg msg (\<lambda>x. x\<lparr>KEY_HTTP_EP_SERVER := True\<rparr>) s2"
  have mm: "msg_method (msgs s3 msg) = msg_method (msgs s msg)"
    and ct: "request_content_type (msgs s3 msg) = request_content_type (msgs s msg)"
    using set_KEY_MESSAGE_msg [OF k, of msg] manage_cookie_session_fields [OF m, of msg]
      remove_cookie_timeout_fields [of httpep s1]
    by (simp_all add: s3_def upd_msg_def)
  from s' mm have "if msg_method (msgs s msg) = SOUP_METHOD_GET then
         s' = g_signal_emit (ACTION_REQUESTED (msg_path (msgs s msg)) KMS_HTTP_END_POINT_ACTION_GET)
               (kms_http_ep_server_get_handler msg httpep s3)
       else if msg_method (msgs s msg) = SOUP_METHOD_POST then
         (\<exists>s4. kms_http_ep_server_post_handler msg httpep s3 = Inr s4 \<and>
            s' = g_signal_emit
                   (ACTION_REQUESTED (msg_path (msgs s msg)) KMS_HTTP_END_POINT_ACTION_POST) s4)
       else s' = soup_message_set_status msg SOUP_STATUS_METHOD_NOT_ALLOWED s3"
    by (auto simp: s3_def [symmetric] Let_def ebind_eq_Inr split: if_splits)
  with k mm ct show ?thesis by (auto simp: s3_def Let_def)
qed

lemmas transfer_defs = kms_http_ep_server_get_handler_def kms_http_ep_server_post_handler_def
  soup_message_set_status_def msg_add_finished_property_def msg_signal_connect_def
  ep_signal_connect_def g_signal_emit_def upd_msg_def upd_ep_def Let_def

lemma get_handler_fields:
  "status_code (msgs (kms_http_ep_server_get_handler msg httpep s) msg) = SOUP_STATUS_OK \<and>
   set (response_headers (msgs s x)) \<subseteq>
     set (response_headers (msgs (kms_http_ep_server_get_handler msg httpep s) x)) \<and>
   KEY_COOKIE (httpeps (kms_http_ep_server_get_handler msg httpep s) e) = KEY_COOKIE (httpeps s e) \<and>
   emitted (kms_http_ep_server_get_handler msg httpep s) = emitted s"
  by (auto simp: transfer_defs)

lemma post_handler_fields:
  "kms_http_ep_server_post_handler msg httpep s = Inr s' \<Longrightarrow>
   status_code (msgs s' msg) \<in> {SOUP_STATUS_OK, SOUP_STATUS_NOT_ACCEPTABLE} \<and>
   response_headers (msgs s' x) = response_headers (msgs s x) \<and>
   httpeps s' = httpeps s \<and> emitted s' = emitted s \<and> timeouts s' = timeouts s"
  by (auto simp: transfer_defs split: option.splits if_splits)

text \<open>The POST handler returns exactly when the request has a content type.\<close>

lemma post_handler_returns:
  "(\<exists>s'. kms_http_ep_server_post_handler msg httpep s = Inr s') \<longleftrightarrow>
     request_content_type (msgs s msg) \<noteq> None"
  by (auto simp: kms_http_ep_server_post_handler_def Let_def split: option.splits)

lemma post_handler_no_content_type:
  "request_content_type (msgs s msg) = None \<Longrightarrow>
   kms_http_ep_server_post_handler msg httpep s = Inl UninitialisedRead"
  by (simp add: kms_http_ep_server_post_handler_def Let_def)

lemma status_codes_distinct:
  "SOUP_STATUS_OK \<noteq> SOUP_STATUS_BAD_REQUEST" "SOUP_STATUS_NOT_ACCEPTABLE \<noteq> SOUP_STATUS_BAD_REQUEST"
  "SOUP_STATUS_METHOD_NOT_ALLOWED \<noteq> SOUP_STATUS_BAD_REQUEST"
  by (simp_all add: SOUP_STATUS_OK_def SOUP_STATUS_BAD_REQUEST_def SOUP_STATUS_NOT_ACCEPTABLE_def
      SOUP_STATUS_METHOD_NOT_ALLOWED_def)

lemma methods_distinct: "SOUP_METHOD_GET \<noteq> SOUP_METHOD_POST"
  by (simp add: SOUP_METHOD_GET_def SOUP_METHOD_POST_def)

text \<open>After admission: the status is not 400, the cookie of the session stage stays, and
  the response headers of the session stage stay.\<close>

lemma got_headers_handler_after_admission:
  assumes h: "handlers s = Some h" and r: "map_of h (msg_path (msgs s msg)) = Some httpep"
    and m: "kms_http_ep_server_manage_cookie_session now id_str httpep msg (msg_path (msgs s msg)) s = Inr (True, s1)"
    and g: "got_headers_handler now id_str msg s = Inr s'"
  shows "status_code (msgs s' msg) \<noteq> SOUP_STATUS_BAD_REQUEST \<and>
         set (response_headers (msgs s1 msg)) \<subseteq> set (response_headers (msgs s' msg)) \<and>
         KEY_COOKIE (httpeps s' httpep) = KEY_COOKIE (httpeps s1 httpep)"
proof -
  from got_headers_handler_admitted_cases [OF h r m g] obtain s2 where
    k: "set_KEY_MESSAGE httpep (Some msg) (remove_cookie_timeout httpep s1) = Inr s2"
    and c: "if msg_method (msgs s msg) = SOUP_METHOD_GET then
         s' = g_signal_emit (ACTION_REQUESTED (msg_path (msgs s msg)) KMS_HTTP_END_POINT_ACTION_GET)
               (kms_http_ep_server_get_handler msg httpep (upd_msg msg (\<lambda>x. x\<lparr>KEY_HTTP_EP_SERVER := True\<rparr>) s2))
       else if msg_method (msgs s msg) = SOUP_METHOD_POST then
         (\<exists>s4. kms_http_ep_server_post_handler msg httpep (upd_msg msg (\<lambda>x. x\<lparr>KEY_HTTP_EP_SERVER := True\<rparr>) s2) = Inr s4 \<and>
            s' = g_signal_emit
                   (ACTION_REQUESTED (msg_path (msgs s msg)) KMS_HTTP_END_POINT_ACTION_POST) s4)
       else s' = soup_message_set_status msg SOUP_STATUS_METHOD_NOT_ALLOWED (upd_msg msg (\<lambda>x. x\<lparr>KEY_HTTP_EP_SERVER := True\<rparr>) s2)"
    by (auto simp: Let_def)
  define s3 where "s3 = upd_msg msg (\<lambda>x. x\<lparr>KEY_HTTP_EP_SERVER := True\<rparr>) s2"
  have hd: "response_headers (msgs s3 msg) = response_headers (msgs s1 msg)"
    using set_KEY_MESSAGE_msg [OF k, of msg]
    by (simp add: s3_def upd_msg_def remove_cookie_timeout_def upd_ep_def g_source_remove_def
        split: option.splits)
  have ck: "KEY_COOKIE (httpeps s3 httpep) = KEY_COOKIE (httpeps s1 httpep)"
    using set_KEY_MESSAGE_ep [OF k, of httpep]
    by (simp add: s3_def upd_msg_def remove_cookie_timeout_def upd_ep_def g_source_remove_def
        split: option.splits)
  consider (get) "msg_method (msgs s msg) = SOUP_METHOD_GET"
    | (post) "msg_method (msgs s msg) \<noteq> SOUP_METHOD_GET" "msg_method (msgs s msg) = SOUP_METHOD_POST"
    | (other) "msg_method (msgs s msg) \<noteq> SOUP_METHOD_GET" "msg_method (msgs s msg) \<noteq> SOUP_METHOD_POST"
    by blast
  then show ?thesis
  proof cases
    case get
    with c have e: "s' = g_signal_emit (ACTION_REQUESTED (msg_path (msgs s msg)) KMS_HTTP_END_POINT_ACTION_GET)
               (kms_http_ep_server_get_handler msg httpep s3)"
      by (simp add: s3_def)
    from get_handler_fields [of msg httpep s3 msg httpep] hd ck show ?thesis
      by (simp add: e g_signal_emit_def status_codes_distinct)
  next
    case post
    with c obtain s4 where p4: "kms_http_ep_server_post_handler msg httpep s3 = Inr s4"
      and e: "s' = g_signal_emit
                   (ACTION_REQUESTED (msg_path (msgs s msg)) KMS_HTTP_END_POINT_ACTION_POST) s4"
      by (auto simp: s3_def)
    from post_handler_fields [OF p4, of msg] hd ck show ?thesis
      by (auto simp: e g_signal_emit_def status_codes_distinct)
  next
    case other
    with c have e: "s' = soup_message_set_status msg SOUP_STATUS_METHOD_NOT_ALLOWED s3"
      by (simp add: s3_def)
    from hd ck show ?thesis
      by (simp add: e soup_message_set_status_def upd_msg_def status_codes_distinct)
  qed
qed

text \<open>
  An admitted request returns when no message is bound to the endpoint, unless it is a
  POST with no content type.
\<close>

lemma got_headers_handler_returns:
  assumes h: "handlers s = Some h" and r: "map_of h (msg_path (msgs s msg)) = Some httpep"
    and m: "kms_http_ep_server_manage_cookie_session now id_str httpep msg (msg_path (msgs s msg)) s = Inr (True, s1)"
    and n: "KEY_MESSAGE (httpeps s1 httpep) = None"
    and c: "msg_method (msgs s msg) = SOUP_METHOD_POST \<longrightarrow> request_content_type (msgs s msg) \<noteq> None"
  shows "\<exists>s'. got_headers_handler now id_str msg s = Inr s'"
proof -
  let ?s2 = "upd_ep httpep (\<lambda>x. x\<lparr>KEY_MESSAGE := Some msg\<rparr>) (remove_cookie_timeout httpep s1)"
  let ?s3 = "upd_msg msg (\<lambda>x. x\<lparr>KEY_HTTP_EP_SERVER := True\<rparr>) ?s2"
  have "KEY_MESSAGE (httpeps (remove_cookie_timeout httpep s1) httpep) = None"
    using n by (simp add: remove_cookie_timeout_def upd_ep_def g_source_remove_def split: option.splits)
  from set_KEY_MESSAGE_None [OF this]
  have k: "set_KEY_MESSAGE httpep (Some msg) (remove_cookie_timeout httpep s1) = Inr ?s2" .
  have mm: "msg_method (msgs ?s3 msg) = msg_method (msgs s msg)"
    and ct: "request_content_type (msgs ?s3 msg) = request_content_type (msgs s msg)"
    using manage_cookie_session_fields [OF m, of msg] remove_cookie_timeout_fields [of httpep s1]
    by (simp_all add: upd_msg_def upd_ep_def)
  have "msg_method (msgs s msg) = SOUP_METHOD_POST \<longrightarrow>
        (\<exists>s4. kms_http_ep_server_post_handler msg httpep ?s3 = Inr s4)"
    using c ct post_handler_returns [of msg httpep ?s3] by simp
  with mm show ?thesis
    by (auto simp: got_headers_handler_admitted [OF h r m] k Let_def)
qed

text \<open>
  The cookie session in general, for a request to a registered path. If the endpoint
  has no cookie, the session stage admits the request, and whenever
  \<open>got_headers_handler\<close> returns, the status is not 400, the response carries the
  \<open>Set-Cookie\<close> header of the new cookie and the endpoint holds that cookie. If the
  endpoint has a cookie, the session stage admits the request exactly when
  \<open>cookie_has_expired\<close> is false and some cookie of the request has the same name and
  the same value; otherwise the handler returns the state as it was with the status set
  to 400. For a cookie with an expiry date \<open>cookie_has_expired\<close> says that the date is
  before the clock; for a cookie without one it is true. In the admitted cases the
  handler returns when no message is bound to the endpoint and the request is not a POST
  without a content type.
\<close>

theorem cookie_session_general:
  assumes h: "handlers s = Some h" and r: "map_of h (msg_path (msgs s msg)) = Some httpep"
  shows
   "(\<forall>l. KEY_COOKIE (httpeps s httpep) = None \<and> KEY_PARAM_LIFETIME (httpeps s httpep) = Some l \<longrightarrow>
       (\<exists>s1. kms_http_ep_server_manage_cookie_session now id_str httpep msg (msg_path (msgs s msg)) s
               = Inr (True, s1)) \<and>
       (KEY_MESSAGE (httpeps s httpep) = None \<and>
        (msg_method (msgs s msg) = SOUP_METHOD_POST \<longrightarrow> request_content_type (msgs s msg) \<noteq> None) \<longrightarrow>
          (\<exists>s'. got_headers_handler now id_str msg s = Inr s')) \<and>
       (\<forall>s'. got_headers_handler now id_str msg s = Inr s' \<longrightarrow>
          status_code (msgs s' msg) \<noteq> SOUP_STATUS_BAD_REQUEST \<and>
          (''Set-Cookie'', Set_Cookie_Header (soup_cookie_new now COOKIE_NAME id_str (announcedAddr s)
              (msg_path (msgs s msg)) (guint_to_int l))) \<in> set (response_headers (msgs s' msg)) \<and>
          KEY_COOKIE (httpeps s' httpep) = Some (soup_cookie_new now COOKIE_NAME id_str (announcedAddr s)
              (msg_path (msgs s msg)) (guint_to_int l)))) \<and>
    (\<forall>cookie. KEY_COOKIE (httpeps s httpep) = Some cookie \<longrightarrow>
       (if \<not> cookie_has_expired now cookie \<and> (\<exists>c \<in> set (request_cookies (msgs s msg)).
              fst c = cookie_name cookie \<and> snd c = cookie_value cookie)
        then kms_http_ep_server_manage_cookie_session now id_str httpep msg (msg_path (msgs s msg)) s
               = Inr (True, s) \<and>
             (KEY_MESSAGE (httpeps s httpep) = None \<and>
              (msg_method (msgs s msg) = SOUP_METHOD_POST \<longrightarrow> request_content_type (msgs s msg) \<noteq> None) \<longrightarrow>
                (\<exists>s'. got_headers_handler now id_str msg s = Inr s')) \<and>
             (\<forall>s'. got_headers_handler now id_str msg s = Inr s' \<longrightarrow>
                status_code (msgs s' msg) \<noteq> SOUP_STATUS_BAD_REQUEST \<and>
                KEY_COOKIE (httpeps s' httpep) = Some cookie)
        else kms_http_ep_server_manage_cookie_session now id_str httpep msg (msg_path (msgs s msg)) s
               = Inr (False, s) \<and>
             got_headers_handler now id_str msg s
               = Inr (soup_message_set_status msg SOUP_STATUS_BAD_REQUEST s))) \<and>
    (\<forall>cookie t. cookie_expires cookie = Some t \<longrightarrow> (cookie_has_expired now cookie \<longleftrightarrow> t < now)) \<and>
    (\<forall>cookie. cookie_expires cookie = None \<longrightarrow> cookie_has_expired now cookie)"
proof (intro conjI allI impI)
  fix l
  assume a: "KEY_COOKIE (httpeps s httpep) = None \<and> KEY_PARAM_LIFETIME (httpeps s httpep) = Some l"
  let ?c = "soup_cookie_new now COOKIE_NAME id_str (announcedAddr s) (msg_path (msgs s msg)) (guint_to_int l)"
  let ?s1 = "upd_ep httpep (\<lambda>x. x\<lparr>KEY_COOKIE := Some ?c\<rparr>)
         (upd_msg msg (\<lambda>x. x\<lparr>response_headers := response_headers x @ [(''Set-Cookie'', Set_Cookie_Header ?c)]\<rparr>) s)"
  from a have m: "kms_http_ep_server_manage_cookie_session now id_str httpep msg (msg_path (msgs s msg)) s
                    = Inr (True, ?s1)"
    by (simp add: manage_cookie_session_new)
  then show "\<exists>s1. kms_http_ep_server_manage_cookie_session now id_str httpep msg (msg_path (msgs s msg)) s
               = Inr (True, s1)" by blast
  {
    assume b: "KEY_MESSAGE (httpeps s httpep) = None \<and>
        (msg_method (msgs s msg) = SOUP_METHOD_POST \<longrightarrow> request_content_type (msgs s msg) \<noteq> None)"
    then have "KEY_MESSAGE (httpeps ?s1 httpep) = None" by (simp add: upd_ep_def upd_msg_def)
    from got_headers_handler_returns [OF h r m this] b
    show "\<exists>s'. got_headers_handler now id_str msg s = Inr s'" by simp
  }
  fix s'
  assume g: "got_headers_handler now id_str msg s = Inr s'"
  from got_headers_handler_after_admission [OF h r m g]
  have A: "status_code (msgs s' msg) \<noteq> SOUP_STATUS_BAD_REQUEST"
    and B: "set (response_headers (msgs ?s1 msg)) \<subseteq> set (response_headers (msgs s' msg))"
    and C: "KEY_COOKIE (httpeps s' httpep) = KEY_COOKIE (httpeps ?s1 httpep)"
    by blast+
  from A show "status_code (msgs s' msg) \<noteq> SOUP_STATUS_BAD_REQUEST" .
  from B show "(''Set-Cookie'', Set_Cookie_Header ?c) \<in> set (response_headers (msgs s' msg))"
    by (auto simp: upd_ep_def upd_msg_def)
  from C show "KEY_COOKIE (httpeps s' httpep) = Some ?c"
    by (simp add: upd_ep_def upd_msg_def)
next
  fix cookie
  assume a: "KEY_COOKIE (httpeps s httpep) = Some cookie"
  let ?adm = "\<not> cookie_has_expired now cookie \<and> (\<exists>c \<in> set (request_cookies (msgs s msg)).
              fst c = cookie_name cookie \<and> snd c = cookie_value cookie)"
  from a have m: "kms_http_ep_server_manage_cookie_session now id_str httpep msg (msg_path (msgs s msg)) s
                    = Inr (?adm, s)"
    by (simp add: manage_cookie_session_existing)
  show "if ?adm
        then kms_http_ep_server_manage_cookie_session now id_str httpep msg (msg_path (msgs s msg)) s
               = Inr (True, s) \<and>
             (KEY_MESSAGE (httpeps s httpep) = None \<and>
              (msg_method (msgs s msg) = SOUP_METHOD_POST \<longrightarrow> request_content_type (msgs s msg) \<noteq> None) \<longrightarrow>
                (\<exists>s'. got_headers_handler now id_str msg s = Inr s')) \<and>
             (\<forall>s'. got_headers_handler now id_str msg s = Inr s' \<longrightarrow>
                status_code (msgs s' msg) \<noteq> SOUP_STATUS_BAD_REQUEST \<and>
                KEY_COOKIE (httpeps s' httpep) = Some cookie)
        else kms_http_ep_server_manage_cookie_session now id_str httpep msg (msg_path (msgs s msg)) s
               = Inr (False, s) \<and>
             got_headers_handler now id_str msg s
               = Inr (soup_message_set_status msg SOUP_STATUS_BAD_REQUEST s)"
  proof (cases ?adm)
    case True
    with m have m': "kms_http_ep_server_manage_cookie_session now id_str httpep msg (msg_path (msgs s msg)) s
                    = Inr (True, s)" by simp
    from got_headers_handler_returns [OF h r m'] got_headers_handler_after_admission [OF h r m'] a True m'
    show ?thesis by auto
  next
    case False
    with m have m': "kms_http_ep_server_manage_cookie_session now id_str httpep msg (msg_path (msgs s msg)) s
                    = Inr (False, s)" by simp
    from got_headers_handler_rejected [OF h r m'] False m' show ?thesis by simp
  qed
next
  fix cookie :: SoupCookie and t
  assume "cookie_expires cookie = Some t"
  then show "cookie_has_expired now cookie \<longleftrightarrow> t < now" by (rule cookie_has_expired_dated)
next
  fix cookie :: SoupCookie
  assume "cookie_expires cookie = None"
  then show "cookie_has_expired now cookie" by (rule cookie_has_expired_dateless)
qed

lemma srv_u_facts:
  "handlers srv_u = Some [(''/u'', 7)]" "KEY_COOKIE (httpeps srv_u 7) = None"
  "KEY_PARAM_LIFETIME (httpeps srv_u 7) = Some 60" "KEY_MESSAGE (httpeps srv_u 7) = None"
  "announcedAddr srv_u = Some ''192.0.2.1''"
  by (simp_all add: srv_u_def server_defs)

lemma get1_facts:
  "handlers get1 = Some [(''/u'', 7)]" "KEY_COOKIE (httpeps get1 7) = Some cookie42"
  "cookie_expires cookie42 = Some 160" "cookie_name cookie42 = ''HttpEPCookie''"
  "cookie_value cookie42 = ''42''"
  by (simp_all add: get1_def srv_u_def cookie42_def server_defs)

theorem cookie_session_general_witness:
  "got_headers_handler 100 ''42'' 1 (request_started 1 (new_request ''GET'' ''/u'' [] None) srv_u)
      = Inr get1 \<and>
   status_code (msgs get1 1) \<noteq> SOUP_STATUS_BAD_REQUEST \<and>
   (''Set-Cookie'', Set_Cookie_Header cookie42) \<in> set (response_headers (msgs get1 1)) \<and>
   KEY_COOKIE (httpeps get1 7) = Some cookie42 \<and>
   (\<exists>s'. got_headers_handler 110 ''43'' 2
            (request_started 2 (new_request ''GET'' ''/u'' [(''HttpEPCookie'', ''42'')] None) get1) = Inr s' \<and>
         status_code (msgs s' 2) = SOUP_STATUS_OK \<and> KEY_COOKIE (httpeps s' 7) = Some cookie42) \<and>
   got_headers_handler 110 ''43'' 3
       (request_started 3 (new_request ''GET'' ''/u'' [(''HttpEPCookie'', ''0'')] None) get1)
     = Inr (soup_message_set_status 3 SOUP_STATUS_BAD_REQUEST
         (request_started 3 (new_request ''GET'' ''/u'' [(''HttpEPCookie'', ''0'')] None) get1)) \<and>
   got_headers_handler 161 ''43'' 4
       (request_started 4 (new_request ''GET'' ''/u'' [(''HttpEPCookie'', ''42'')] None) get1)
     = Inr (soup_message_set_status 4 SOUP_STATUS_BAD_REQUEST
         (request_started 4 (new_request ''GET'' ''/u'' [(''HttpEPCookie'', ''42'')] None) get1)) \<and>
   \<not> cookie_has_expired 110 cookie42 \<and> cookie_has_expired 161 cookie42"
proof -
  let ?r1 = "request_started 1 (new_request ''GET'' ''/u'' [] None) srv_u"
  have h1: "handlers ?r1 = Some [(''/u'', 7)]"
    and p1: "map_of [(''/u'', 7)] (msg_path (msgs ?r1 1)) = Some (7::nat)"
    and c1: "KEY_COOKIE (httpeps ?r1 7) = None \<and> KEY_PARAM_LIFETIME (httpeps ?r1 7) = Some 60"
    and n1: "KEY_MESSAGE (httpeps ?r1 7) = None \<and>
        (msg_method (msgs ?r1 1) = SOUP_METHOD_POST \<longrightarrow> request_content_type (msgs ?r1 1) \<noteq> None)"
    and a1: "announcedAddr ?r1 = Some ''192.0.2.1''" and q1: "msg_path (msgs ?r1 1) = ''/u''"
    using srv_u_facts by (simp_all add: request_started_def new_request_def SOUP_METHOD_POST_def)
  note T1 = cookie_session_general [OF h1 p1, of 100 "''42''", THEN conjunct1, rule_format, OF c1]
  from T1 n1 obtain s' where g1: "got_headers_handler 100 ''42'' 1 ?r1 = Inr s'" by blast
  then have e1: "got_headers_handler 100 ''42'' 1 ?r1 = Inr get1"
    by (simp add: get1_def result_of_def)
  from T1 e1 a1 q1 have f1: "status_code (msgs get1 1) \<noteq> SOUP_STATUS_BAD_REQUEST \<and>
     (''Set-Cookie'', Set_Cookie_Header cookie42) \<in> set (response_headers (msgs get1 1)) \<and>
     KEY_COOKIE (httpeps get1 7) = Some cookie42"
    by (simp add: cookie42_def guint_to_int_def)
  note D = cookie_session_general [OF h1 p1, of _ _ ,
      THEN conjunct2, THEN conjunct2, THEN conjunct1, rule_format, OF get1_facts(3)]
  from D [of 110] D [of 161]
  have x: "\<not> cookie_has_expired 110 cookie42" "cookie_has_expired 161 cookie42" by simp_all
  let ?r2 = "request_started 2 (new_request ''GET'' ''/u'' [(''HttpEPCookie'', ''42'')] None) get1"
  have h2: "handlers ?r2 = Some [(''/u'', 7)]"
    and p2: "map_of [(''/u'', 7)] (msg_path (msgs ?r2 2)) = Some (7::nat)"
    and c2: "KEY_COOKIE (httpeps ?r2 7) = Some cookie42"
    using get1_facts by (simp_all add: request_started_def new_request_def)
  note T2 = cookie_session_general [OF h2 p2, of 110 "''43''", THEN conjunct2, THEN conjunct1,
      rule_format, OF c2]
  obtain s2 where g2: "got_headers_handler 110 ''43'' 2 ?r2 = Inr s2"
    and st2: "status_code (msgs s2 2) = SOUP_STATUS_OK"
    by (simp add: get1_def srv_u_def server_defs)
  from T2 g2 x have k2: "KEY_COOKIE (httpeps s2 7) = Some cookie42"
    by (simp add: get1_facts request_started_def new_request_def split: if_splits)
  let ?r3 = "request_started 3 (new_request ''GET'' ''/u'' [(''HttpEPCookie'', ''0'')] None) get1"
  have h3: "handlers ?r3 = Some [(''/u'', 7)]"
    and p3: "map_of [(''/u'', 7)] (msg_path (msgs ?r3 3)) = Some (7::nat)"
    and c3: "KEY_COOKIE (httpeps ?r3 7) = Some cookie42"
    using get1_facts by (simp_all add: request_started_def new_request_def)
  note T3 = cookie_session_general [OF h3 p3, of 110 "''43''", THEN conjunct2, THEN conjunct1,
      rule_format, OF c3]
  from T3 have g3: "got_headers_handler 110 ''43'' 3 ?r3 = Inr (soup_message_set_status 3 SOUP_STATUS_BAD_REQUEST ?r3)"
    by (simp add: get1_facts request_started_def new_request_def split: if_splits)
  let ?r4 = "request_started 4 (new_request ''GET'' ''/u'' [(''HttpEPCookie'', ''42'')] None) get1"
  have h4: "handlers ?r4 = Some [(''/u'', 7)]"
    and p4: "map_of [(''/u'', 7)] (msg_path (msgs ?r4 4)) = Some (7::nat)"
    and c4: "KEY_COOKIE (httpeps ?r4 7) = Some cookie42"
    using get1_facts by (simp_all add: request_started_def new_request_def)
  note T4 = cookie_session_general [OF h4 p4, of 161 "''43''", THEN conjunct2, THEN conjunct1,
      rule_format, OF c4]
  from T4 x have g4: "got_headers_handler 161 ''43'' 4 ?r4 = Inr (soup_message_set_status 4 SOUP_STATUS_BAD_REQUEST ?r4)"
    by (simp add: get1_facts request_started_def new_request_def split: if_splits)
  from e1 f1 g2 st2 k2 g3 g4 x show ?thesis by blast
qed

section \<open>Routing\<close>









section \<open>The POST dispatch\<close>

lemma post_handler_rejects:
  "request_content_type (msgs s msg) = Some (content_type, params) \<Longrightarrow>
   g_str_has_prefix ''multipart/'' content_type \<Longrightarrow> params ''boundary'' = None \<Longrightarrow>
   kms_http_ep_server_post_handler msg httpep s
     = Inr (soup_message_set_status msg SOUP_STATUS_NOT_ACCEPTABLE s)"
  by (simp add: kms_http_ep_server_post_handler_def Let_def)

text \<open>An admitted POST with no content type does not return.\<close>

lemma got_headers_handler_post_no_content_type:
  assumes h: "handlers s = Some h" and r: "map_of h (msg_path (msgs s msg)) = Some httpep"
    and p: "msg_method (msgs s msg) = SOUP_METHOD_POST"
    and m: "kms_http_ep_server_manage_cookie_session now id_str httpep msg (msg_path (msgs s msg)) s = Inr (True, s1)"
    and c: "request_content_type (msgs s msg) = None"
  shows "got_headers_handler now id_str msg s \<noteq> Inr s'"
    and "KEY_MESSAGE (httpeps s httpep) = None \<Longrightarrow>
         got_headers_handler now id_str msg s = Inl UninitialisedRead"
proof -
  show "got_headers_handler now id_str msg s \<noteq> Inr s'"
  proof
    assume g: "got_headers_handler now id_str msg s = Inr s'"
    from got_headers_handler_admitted_cases [OF h r m g] p c methods_distinct
    obtain s3 s4 where "request_content_type (msgs s3 msg) = None"
      and "kms_http_ep_server_post_handler msg httpep s3 = Inr s4"
      by (auto simp: Let_def)
    with post_handler_no_content_type [of s3 msg httpep] show False by simp
  qed
next
  assume n: "KEY_MESSAGE (httpeps s httpep) = None"
  let ?s2 = "upd_ep httpep (\<lambda>x. x\<lparr>KEY_MESSAGE := Some msg\<rparr>) (remove_cookie_timeout httpep s1)"
  let ?s3 = "upd_msg msg (\<lambda>x. x\<lparr>KEY_HTTP_EP_SERVER := True\<rparr>) ?s2"
  from n manage_cookie_session_fields [OF m, of msg httpep]
  have "KEY_MESSAGE (httpeps (remove_cookie_timeout httpep s1) httpep) = None"
    by (simp add: remove_cookie_timeout_def upd_ep_def g_source_remove_def split: option.splits)
  from set_KEY_MESSAGE_None [OF this]
  have k: "set_KEY_MESSAGE httpep (Some msg) (remove_cookie_timeout httpep s1) = Inr ?s2" .
  have mm: "msg_method (msgs ?s3 msg) = SOUP_METHOD_POST"
    and ct: "request_content_type (msgs ?s3 msg) = None"
    using manage_cookie_session_fields [OF m, of msg] remove_cookie_timeout_fields [of httpep s1] p c
    by (simp_all add: upd_msg_def upd_ep_def)
  from mm methods_distinct post_handler_no_content_type [OF ct, of httpep]
  show "got_headers_handler now id_str msg s = Inl UninitialisedRead"
    by (simp add: got_headers_handler_admitted [OF h r m] k Let_def)
qed

text \<open>
  The POST dispatch in general. For a POST to a registered path that the session stage
  admits: with a content type, the handler returns when no message is bound to the
  endpoint; with none it never returns, and fails on the read of \<open>params\<close> when no
  message is bound. Whenever it returns, the server has emitted
  \<open>action-requested (path, POST)\<close> as its last signal; and when
  \<open>g_str_has_prefix ("multipart/", content_type)\<close> holds and there is no
  \<open>boundary\<close> parameter, the status is 406, no handler id is stored on the message and
  the message has no handler that it did not have before.
\<close>

theorem post_dispatch_general:
  assumes h: "handlers s = Some h" and r: "map_of h (msg_path (msgs s msg)) = Some httpep"
    and p: "msg_method (msgs s msg) = SOUP_METHOD_POST"
    and m: "kms_http_ep_server_manage_cookie_session now id_str httpep msg (msg_path (msgs s msg)) s
              = Inr (True, s1)"
  shows
   "(KEY_MESSAGE (httpeps s httpep) = None \<and> request_content_type (msgs s msg) \<noteq> None \<longrightarrow>
       (\<exists>s'. got_headers_handler now id_str msg s = Inr s')) \<and>
    (request_content_type (msgs s msg) = None \<longrightarrow>
       (\<forall>s'. got_headers_handler now id_str msg s \<noteq> Inr s') \<and>
       (KEY_MESSAGE (httpeps s httpep) = None \<longrightarrow>
          got_headers_handler now id_str msg s = Inl UninitialisedRead)) \<and>
    (\<forall>s'. got_headers_handler now id_str msg s = Inr s' \<longrightarrow>
       emitted s' = emitted s @ [ACTION_REQUESTED (msg_path (msgs s msg)) KMS_HTTP_END_POINT_ACTION_POST] \<and>
       ((\<exists>content_type params. request_content_type (msgs s msg) = Some (content_type, params) \<and>
           g_str_has_prefix ''multipart/'' content_type \<and> params ''boundary'' = None) \<longrightarrow>
          status_code (msgs s' msg) = SOUP_STATUS_NOT_ACCEPTABLE \<and>
          KEY_FINISHED (msgs s' msg) = KEY_FINISHED (msgs s msg) \<and>
          KEY_BOUNDARY (msgs s' msg) = KEY_BOUNDARY (msgs s msg) \<and>
          KEY_GOT_CHUNK_HANDLER_ID (msgs s' msg) = KEY_GOT_CHUNK_HANDLER_ID (msgs s msg) \<and>
          KEY_FINISHED_HANDLER_ID (msgs s' msg) = KEY_FINISHED_HANDLER_ID (msgs s msg) \<and>
          set (msg_handlers (msgs s' msg)) \<subseteq> set (msg_handlers (msgs s msg))))"
proof (intro conjI allI impI)
  assume n: "KEY_MESSAGE (httpeps s httpep) = None \<and> request_content_type (msgs s msg) \<noteq> None"
  with manage_cookie_session_fields [OF m, of msg httpep]
  have "KEY_MESSAGE (httpeps s1 httpep) = None" by simp
  from got_headers_handler_returns [OF h r m this] n
  show "\<exists>s'. got_headers_handler now id_str msg s = Inr s'" by simp
next
  fix s'
  assume "request_content_type (msgs s msg) = None"
  from got_headers_handler_post_no_content_type(1) [OF h r p m this]
  show "got_headers_handler now id_str msg s \<noteq> Inr s'" .
next
  assume "request_content_type (msgs s msg) = None" and "KEY_MESSAGE (httpeps s httpep) = None"
  from got_headers_handler_post_no_content_type(2) [OF h r p m this]
  show "got_headers_handler now id_str msg s = Inl UninitialisedRead" .
next
  fix s'
  assume g: "got_headers_handler now id_str msg s = Inr s'"
  from got_headers_handler_admitted_cases [OF h r m g] p methods_distinct obtain s2 s4 where
    k: "set_KEY_MESSAGE httpep (Some msg) (remove_cookie_timeout httpep s1) = Inr s2"
    and ct: "request_content_type (msgs (upd_msg msg (\<lambda>x. x\<lparr>KEY_HTTP_EP_SERVER := True\<rparr>) s2) msg)
               = request_content_type (msgs s msg)"
    and p4: "kms_http_ep_server_post_handler msg httpep
               (upd_msg msg (\<lambda>x. x\<lparr>KEY_HTTP_EP_SERVER := True\<rparr>) s2) = Inr s4"
    and e: "s' = g_signal_emit
                   (ACTION_REQUESTED (msg_path (msgs s msg)) KMS_HTTP_END_POINT_ACTION_POST) s4"
    by (auto simp: Let_def)
  define s3 where "s3 = upd_msg msg (\<lambda>x. x\<lparr>KEY_HTTP_EP_SERVER := True\<rparr>) s2"
  note M = manage_cookie_session_fields [OF m, of msg httpep]
  note R = remove_cookie_timeout_fields [of httpep s1 httpep]
  note KM = set_KEY_MESSAGE_msg [OF k, of msg]
  note KS = set_KEY_MESSAGE_server [OF k]
  have em: "emitted s3 = emitted s" using KS M R by (simp add: s3_def upd_msg_def)
  show "emitted s' = emitted s @ [ACTION_REQUESTED (msg_path (msgs s msg)) KMS_HTTP_END_POINT_ACTION_POST]"
    using post_handler_fields [OF p4, of msg] em by (simp add: e s3_def g_signal_emit_def)
  assume c: "\<exists>content_type params. request_content_type (msgs s msg) = Some (content_type, params) \<and>
           g_str_has_prefix ''multipart/'' content_type \<and> params ''boundary'' = None"
  with ct p4 post_handler_rejects [of s3 msg _ _ httpep]
  have e': "s' = g_signal_emit (ACTION_REQUESTED (msg_path (msgs s msg)) KMS_HTTP_END_POINT_ACTION_POST)
       (soup_message_set_status msg SOUP_STATUS_NOT_ACCEPTABLE s3)"
    by (auto simp: e s3_def)
  show "status_code (msgs s' msg) = SOUP_STATUS_NOT_ACCEPTABLE"
    by (simp add: e' g_signal_emit_def soup_message_set_status_def upd_msg_def)
  show "KEY_FINISHED (msgs s' msg) = KEY_FINISHED (msgs s msg)"
    using KM M R by (simp add: e' s3_def g_signal_emit_def soup_message_set_status_def upd_msg_def)
  show "KEY_BOUNDARY (msgs s' msg) = KEY_BOUNDARY (msgs s msg)"
    using KM M R by (simp add: e' s3_def g_signal_emit_def soup_message_set_status_def upd_msg_def)
  show "KEY_GOT_CHUNK_HANDLER_ID (msgs s' msg) = KEY_GOT_CHUNK_HANDLER_ID (msgs s msg)"
    using KM M R by (simp add: e' s3_def g_signal_emit_def soup_message_set_status_def upd_msg_def)
  show "KEY_FINISHED_HANDLER_ID (msgs s' msg) = KEY_FINISHED_HANDLER_ID (msgs s msg)"
    using KM M R by (simp add: e' s3_def g_signal_emit_def soup_message_set_status_def upd_msg_def)
  show "set (msg_handlers (msgs s' msg)) \<subseteq> set (msg_handlers (msgs s msg))"
    using KM M R by (simp add: e' s3_def g_signal_emit_def soup_message_set_status_def upd_msg_def)
qed

lemma post_req_facts:
  "handlers post_req = Some [(''/u'', 7)]" "msg_path (msgs post_req 1) = ''/u''"
  "msg_method (msgs post_req 1) = SOUP_METHOD_POST" "KEY_MESSAGE (httpeps post_req 7) = None"
  "request_content_type (msgs post_req 1) = None"
  "emitted post_req = []" "msg_handlers (msgs post_req 1) = []"
  "KEY_FINISHED_HANDLER_ID (msgs post_req 1) = None" "KEY_GOT_CHUNK_HANDLER_ID (msgs post_req 1) = None"
  "\<exists>s1. kms_http_ep_server_manage_cookie_session 100 ''42'' 7 1 ''/u'' post_req = Inr (True, s1)"
  by (simp_all add: post_req_def srv_u_def server_defs)

lemma post_req_mp_facts:
  "handlers post_req_mp = Some [(''/u'', 7)]" "msg_path (msgs post_req_mp 1) = ''/u''"
  "msg_method (msgs post_req_mp 1) = SOUP_METHOD_POST" "KEY_MESSAGE (httpeps post_req_mp 7) = None"
  "request_content_type (msgs post_req_mp 1) = Some (''multipart/'', Map.empty)"
  "emitted post_req_mp = []" "msg_handlers (msgs post_req_mp 1) = []"
  "KEY_FINISHED_HANDLER_ID (msgs post_req_mp 1) = None" "KEY_GOT_CHUNK_HANDLER_ID (msgs post_req_mp 1) = None"
  "\<exists>s1. kms_http_ep_server_manage_cookie_session 100 ''42'' 7 1 ''/u'' post_req_mp = Inr (True, s1)"
  by (simp_all add: post_req_mp_def srv_u_def server_defs)

theorem post_dispatch_general_witness:
  "got_headers_handler 100 ''42'' 1 post_req_mp = Inr post1_mp \<and>
   emitted post1_mp = [ACTION_REQUESTED ''/u'' KMS_HTTP_END_POINT_ACTION_POST] \<and>
   status_code (msgs post1_mp 1) = SOUP_STATUS_NOT_ACCEPTABLE \<and>
   msg_handlers (msgs post1_mp 1) = [] \<and>
   KEY_GOT_CHUNK_HANDLER_ID (msgs post1_mp 1) = None \<and> KEY_FINISHED_HANDLER_ID (msgs post1_mp 1) = None \<and>
   got_headers_handler 100 ''42'' 1 post_req = Inl UninitialisedRead"
proof -
  have r1: "map_of [(''/u'', 7::nat)] (msg_path (msgs post_req 1)) = Some 7"
    using post_req_facts by simp
  from post_req_facts obtain s1 where m1: "kms_http_ep_server_manage_cookie_session 100 ''42'' 7 1
      (msg_path (msgs post_req 1)) post_req = Inr (True, s1)" by auto
  note T1 = post_dispatch_general [OF post_req_facts(1) r1 post_req_facts(3) m1]
  from T1 post_req_facts(4,5)
  have A: "got_headers_handler 100 ''42'' 1 post_req = Inl UninitialisedRead"
    by blast
  have r2: "map_of [(''/u'', 7::nat)] (msg_path (msgs post_req_mp 1)) = Some 7"
    using post_req_mp_facts by simp
  from post_req_mp_facts obtain s2 where m2: "kms_http_ep_server_manage_cookie_session 100 ''42'' 7 1
      (msg_path (msgs post_req_mp 1)) post_req_mp = Inr (True, s2)" by auto
  note T2 = post_dispatch_general [OF post_req_mp_facts(1) r2 post_req_mp_facts(3) m2]
  from T2 post_req_mp_facts(4,5) obtain s'' where "got_headers_handler 100 ''42'' 1 post_req_mp = Inr s''"
    by auto
  then have g2: "got_headers_handler 100 ''42'' 1 post_req_mp = Inr post1_mp"
    by (simp add: post1_mp_def result_of_def)
  have pf: "g_str_has_prefix ''multipart/'' ''multipart/''"
    by (simp add: g_str_has_prefix_def)
  from T2 [THEN conjunct2, THEN conjunct2, rule_format, OF g2] post_req_mp_facts pf
  have B: "emitted post1_mp = [ACTION_REQUESTED ''/u'' KMS_HTTP_END_POINT_ACTION_POST] \<and>
   status_code (msgs post1_mp 1) = SOUP_STATUS_NOT_ACCEPTABLE \<and>
   msg_handlers (msgs post1_mp 1) = [] \<and>
   KEY_GOT_CHUNK_HANDLER_ID (msgs post1_mp 1) = None \<and> KEY_FINISHED_HANDLER_ID (msgs post1_mp 1) = None"
    by simp
  from g2 A B show ?thesis by simp
qed

section \<open>The expiry timer\<close>

lemmas expiry_defs = soup_message_finished_def finished_get_processing_def
  finished_post_processing_def msg_finished_def steal_KEY_MESSAGE_def emit_expiration_signal_def
  g_timeout_add_full_def emit_expiration_signal_cb_def timeout_dispatch_def

lemma map_of_filter_fst_neq: "map_of (filter (\<lambda>t. fst t \<noteq> k) ts) k = None"
  by (induction ts) auto

lemma get_handler_timers:
  "timeouts (kms_http_ep_server_get_handler msg httpep s) = timeouts s \<and>
   KEY_TIMEOUT_ID (httpeps (kms_http_ep_server_get_handler msg httpep s) e) = KEY_TIMEOUT_ID (httpeps s e)"
  by (auto simp: transfer_defs split: option.splits)

lemma emit_expiration_signal_arms:
  assumes "KEY_COOKIE (httpeps s httpep) = Some cookie" and "cookie_expires cookie = Some date"
    and "\<not> date < now" and "KEY_PARAM_TIMEOUT (httpeps s httpep) = Some timeout"
    and "timeout < 2 ^ 32"
  shows "\<exists>s'. emit_expiration_signal now msg httpep s = Inr s' \<and>
     timeouts s' = timeouts s @
        [(next_id s, (nat (min (date - now) (int timeout)) * 1000) mod 2 ^ 32, msg)] \<and>
     KEY_TIMEOUT_ID (httpeps s' httpep) = Some (next_id s) \<and> emitted s' = emitted s"
proof -
  have "nat (min (date - now) (int timeout)) \<le> timeout" by simp
  with assms(5) have "nat (min (date - now) (int timeout)) mod 2 ^ 32
       = nat (min (date - now) (int timeout))" by simp
  moreover have "(if date - now < int timeout then date - now else int timeout)
       = min (date - now) (int timeout)" by simp
  ultimately show ?thesis
    using assms(1-4)
    by (simp add: emit_expiration_signal_def cookie_has_expired_def soup_date_is_past_def
        soup_date_to_time_t_def g_timeout_add_full_def upd_ep_def Let_def)
qed

lemma emit_expiration_signal_expired:
  assumes "KEY_COOKIE (httpeps s httpep) = Some cookie" and "cookie_expires cookie = Some date"
    and "date < now" and "KEY_HTTP_EP_SERVER (msgs s msg)"
  shows "emit_expiration_signal now msg httpep s
           = Inr (g_signal_emit (URL_EXPIRED (msg_path (msgs s msg))) s)"
  using assms
  by (simp add: emit_expiration_signal_def cookie_has_expired_def soup_date_is_past_def)

lemma timeout_dispatch_fires_once:
  assumes "map_of (timeouts s) sid = Some (ms, msg)" and "KEY_HTTP_EP_SERVER (msgs s msg)"
    and "handlers s = Some h"
  shows "\<exists>s'. timeout_dispatch sid s = Inr s' \<and>
     emitted s' = emitted s @ [URL_EXPIRED (msg_path (msgs s msg))] \<and>
     map_of (timeouts s') sid = None"
  using assms
  by (auto simp: timeout_dispatch_def emit_expiration_signal_cb_def g_hash_table_lookup_def
      g_signal_emit_def g_source_remove_def remove_cookie_timeout_def upd_ep_def Let_def
      map_of_filter_fst_neq split: option.splits)

lemma got_headers_handler_cancels_timer:
  assumes h: "handlers s = Some h" and r: "map_of h (msg_path (msgs s msg)) = Some httpep"
    and m: "kms_http_ep_server_manage_cookie_session now id_str httpep msg (msg_path (msgs s msg)) s
              = Inr (True, s1)"
    and g: "got_headers_handler now id_str msg s = Inr s'"
  shows "KEY_TIMEOUT_ID (httpeps s' httpep) = None \<and>
         timeouts s' = timeouts (remove_cookie_timeout httpep s) \<and>
         (\<forall>tid. KEY_TIMEOUT_ID (httpeps s httpep) = Some tid \<longrightarrow> map_of (timeouts s') tid = None)"
proof -
  from got_headers_handler_admitted_cases [OF h r m g] obtain s2 where
    k: "set_KEY_MESSAGE httpep (Some msg) (remove_cookie_timeout httpep s1) = Inr s2"
    and s': "s' = g_signal_emit (ACTION_REQUESTED (msg_path (msgs s msg)) KMS_HTTP_END_POINT_ACTION_GET)
               (kms_http_ep_server_get_handler msg httpep
                  (upd_msg msg (\<lambda>x. x\<lparr>KEY_HTTP_EP_SERVER := True\<rparr>) s2)) \<or>
     (\<exists>s4. kms_http_ep_server_post_handler msg httpep
               (upd_msg msg (\<lambda>x. x\<lparr>KEY_HTTP_EP_SERVER := True\<rparr>) s2) = Inr s4 \<and>
        s' = g_signal_emit (ACTION_REQUESTED (msg_path (msgs s msg)) KMS_HTTP_END_POINT_ACTION_POST) s4) \<or>
     s' = soup_message_set_status msg SOUP_STATUS_METHOD_NOT_ALLOWED
            (upd_msg msg (\<lambda>x. x\<lparr>KEY_HTTP_EP_SERVER := True\<rparr>) s2)"
    by (auto simp: Let_def split: if_splits)
  define s3 where "s3 = upd_msg msg (\<lambda>x. x\<lparr>KEY_HTTP_EP_SERVER := True\<rparr>) s2"
  have t3: "timeouts s3 = timeouts (remove_cookie_timeout httpep s)"
    using set_KEY_MESSAGE_server [OF k] remove_cookie_timeout_timeouts [OF m]
    by (simp add: s3_def upd_msg_def)
  have k3: "KEY_TIMEOUT_ID (httpeps s3 httpep) = None"
    using set_KEY_MESSAGE_ep [OF k, of httpep] remove_cookie_timeout_fields [of httpep s1 httpep]
    by (simp add: s3_def upd_msg_def)
  from s' have "s' = g_signal_emit (ACTION_REQUESTED (msg_path (msgs s msg)) KMS_HTTP_END_POINT_ACTION_GET)
               (kms_http_ep_server_get_handler msg httpep s3) \<or>
     (\<exists>s4. kms_http_ep_server_post_handler msg httpep s3 = Inr s4 \<and>
        s' = g_signal_emit (ACTION_REQUESTED (msg_path (msgs s msg)) KMS_HTTP_END_POINT_ACTION_POST) s4) \<or>
     s' = soup_message_set_status msg SOUP_STATUS_METHOD_NOT_ALLOWED s3"
    by (simp add: s3_def)
  then consider (get) "s' = g_signal_emit
         (ACTION_REQUESTED (msg_path (msgs s msg)) KMS_HTTP_END_POINT_ACTION_GET)
         (kms_http_ep_server_get_handler msg httpep s3)"
    | (post) s4 where "kms_http_ep_server_post_handler msg httpep s3 = Inr s4"
        "s' = g_signal_emit (ACTION_REQUESTED (msg_path (msgs s msg)) KMS_HTTP_END_POINT_ACTION_POST) s4"
    | (other) "s' = soup_message_set_status msg SOUP_STATUS_METHOD_NOT_ALLOWED s3"
    by blast
  then have "KEY_TIMEOUT_ID (httpeps s' httpep) = None \<and>
             timeouts s' = timeouts (remove_cookie_timeout httpep s)"
  proof cases
    case get
    with t3 k3 get_handler_timers [of msg httpep s3 httpep] show ?thesis
      by (simp add: g_signal_emit_def)
  next
    case post
    from post_handler_fields [OF post(1), of msg] t3 k3 show ?thesis
      by (simp add: post(2) g_signal_emit_def)
  next
    case other
    with t3 k3 show ?thesis
      by (simp add: soup_message_set_status_def upd_msg_def)
  qed
  then have A: "KEY_TIMEOUT_ID (httpeps s' httpep) = None"
    and B: "timeouts s' = timeouts (remove_cookie_timeout httpep s)"
    by simp_all
  have "map_of (timeouts s') tid = None" if "KEY_TIMEOUT_ID (httpeps s httpep) = Some tid" for tid
    using that B
    by (simp add: remove_cookie_timeout_def upd_ep_def g_source_remove_def map_of_filter_fst_neq)
  with A B show ?thesis by blast
qed

text \<open>
  The expiry timer in general. With an unexpired cookie \<open>emit_expiration_signal\<close>
  adds one timeout source, of \<open>(1000 * min (date - now) timeout) mod 2 ^ 32\<close>
  milliseconds, stores its id on the endpoint and emits nothing; with an expired cookie it
  emits \<open>url-expired\<close> and adds no source. A source that fires emits one
  \<open>url-expired\<close> for the path of its message and is gone afterwards. An admitted
  request removes the endpoint's source before anything else happens.
\<close>

theorem expiry_timer_model:
  "(\<forall>cookie date timeout. KEY_COOKIE (httpeps s httpep) = Some cookie \<and> cookie_expires cookie = Some date \<and>
       \<not> date < now \<and> KEY_PARAM_TIMEOUT (httpeps s httpep) = Some timeout \<and> timeout < 2 ^ 32 \<longrightarrow>
      (\<exists>s'. emit_expiration_signal now msg httpep s = Inr s' \<and>
         timeouts s' = timeouts s @
            [(next_id s, (nat (min (date - now) (int timeout)) * 1000) mod 2 ^ 32, msg)] \<and>
         KEY_TIMEOUT_ID (httpeps s' httpep) = Some (next_id s) \<and> emitted s' = emitted s)) \<and>
   (\<forall>cookie date. KEY_COOKIE (httpeps s httpep) = Some cookie \<and> cookie_expires cookie = Some date \<and>
       date < now \<and> KEY_HTTP_EP_SERVER (msgs s msg) \<longrightarrow>
      emit_expiration_signal now msg httpep s
        = Inr (g_signal_emit (URL_EXPIRED (msg_path (msgs s msg))) s)) \<and>
   (\<forall>sid ms h. map_of (timeouts s) sid = Some (ms, msg) \<and> KEY_HTTP_EP_SERVER (msgs s msg) \<and>
       handlers s = Some h \<longrightarrow>
      (\<exists>s'. timeout_dispatch sid s = Inr s' \<and>
         emitted s' = emitted s @ [URL_EXPIRED (msg_path (msgs s msg))] \<and>
         map_of (timeouts s') sid = None)) \<and>
   (\<forall>h s1 s' id_str. handlers s = Some h \<and> map_of h (msg_path (msgs s msg)) = Some httpep \<and>
       kms_http_ep_server_manage_cookie_session now id_str httpep msg (msg_path (msgs s msg)) s
         = Inr (True, s1) \<and>
       got_headers_handler now id_str msg s = Inr s' \<longrightarrow>
      KEY_TIMEOUT_ID (httpeps s' httpep) = None \<and>
      timeouts s' = timeouts (remove_cookie_timeout httpep s) \<and>
      (\<forall>tid. KEY_TIMEOUT_ID (httpeps s httpep) = Some tid \<longrightarrow> map_of (timeouts s') tid = None))"
  using emit_expiration_signal_arms [of s httpep _ _ now _ msg]
    emit_expiration_signal_expired [of s httpep _ _ now msg]
    timeout_dispatch_fires_once [of s _ _ msg]
    got_headers_handler_cancels_timer [of s _ msg httpep now]
  by (intro conjI allI impI) blast+

lemma get1_more:
  "KEY_PARAM_TIMEOUT (httpeps get1 7) = Some 5" "KEY_HTTP_EP_SERVER (msgs get1 1)"
  "msg_path (msgs get1 1) = ''/u''" "timeouts get1 = []" "next_id get1 = 4"
  "emitted get1 = [ACTION_REQUESTED ''/u'' KMS_HTTP_END_POINT_ACTION_GET]"
  by (simp_all add: get1_def srv_u_def server_defs)

lemma done1_facts:
  "soup_message_finished 110 1 get1 = Inr done1" "timeouts done1 = [(4, 5000, 1)]"
  "KEY_TIMEOUT_ID (httpeps done1 7) = Some 4" "KEY_HTTP_EP_SERVER (msgs done1 1)"
  "handlers done1 = Some [(''/u'', 7)]" "msg_path (msgs done1 1) = ''/u''"
  "emitted done1 = [ACTION_REQUESTED ''/u'' KMS_HTTP_END_POINT_ACTION_GET]"
  "KEY_MESSAGE (httpeps done1 7) = None"
  by (simp_all add: done1_def get1_def srv_u_def server_defs expiry_defs)

theorem expiry_timer_model_witness:
  "(\<exists>s'. emit_expiration_signal 110 1 7 get1 = Inr s' \<and> timeouts s' = [(4, 5000, 1)] \<and>
         KEY_TIMEOUT_ID (httpeps s' 7) = Some 4) \<and>
   emit_expiration_signal 161 1 7 get1 = Inr (g_signal_emit (URL_EXPIRED ''/u'') get1) \<and>
   soup_message_finished 110 1 get1 = Inr done1 \<and> timeouts done1 = [(4, 5000, 1)] \<and>
   (\<exists>s'. timeout_dispatch 4 done1 = Inr s' \<and>
         emitted s' = [ACTION_REQUESTED ''/u'' KMS_HTTP_END_POINT_ACTION_GET, URL_EXPIRED ''/u''] \<and>
         map_of (timeouts s') 4 = None) \<and>
   (\<exists>s'. got_headers_handler 112 ''43'' 2
            (request_started 2 (new_request ''GET'' ''/u'' [(''HttpEPCookie'', ''42'')] None) done1) = Inr s' \<and>
         KEY_TIMEOUT_ID (httpeps s' 7) = None \<and> timeouts s' = [])"
proof -
  have a: "KEY_COOKIE (httpeps get1 7) = Some cookie42 \<and> cookie_expires cookie42 = Some 160 \<and>
       \<not> (160::int) < 110 \<and> KEY_PARAM_TIMEOUT (httpeps get1 7) = Some 5 \<and> (5::nat) < 2 ^ 32"
    using get1_facts get1_more by simp
  from expiry_timer_model [of get1 7 110 1, THEN conjunct1, rule_format, OF a] get1_more
  have A: "\<exists>s'. emit_expiration_signal 110 1 7 get1 = Inr s' \<and> timeouts s' = [(4, 5000, 1)] \<and>
         KEY_TIMEOUT_ID (httpeps s' 7) = Some 4"
    by auto
  have b: "KEY_COOKIE (httpeps get1 7) = Some cookie42 \<and> cookie_expires cookie42 = Some 160 \<and>
       (160::int) < 161 \<and> KEY_HTTP_EP_SERVER (msgs get1 1)"
    using get1_facts get1_more by simp
  from expiry_timer_model [of get1 7 161 1, THEN conjunct2, THEN conjunct1, rule_format, OF b] get1_more
  have B: "emit_expiration_signal 161 1 7 get1 = Inr (g_signal_emit (URL_EXPIRED ''/u'') get1)"
    by simp
  have c: "map_of (timeouts done1) 4 = Some (5000, 1) \<and> KEY_HTTP_EP_SERVER (msgs done1 1) \<and>
       handlers done1 = Some [(''/u'', 7)]"
    using done1_facts by simp
  from expiry_timer_model [of done1 7 110 1, THEN conjunct2, THEN conjunct2, THEN conjunct1,
      rule_format, OF c] done1_facts
  have C: "\<exists>s'. timeout_dispatch 4 done1 = Inr s' \<and>
         emitted s' = [ACTION_REQUESTED ''/u'' KMS_HTTP_END_POINT_ACTION_GET, URL_EXPIRED ''/u''] \<and>
         map_of (timeouts s') 4 = None"
    by simp
  let ?r = "request_started 2 (new_request ''GET'' ''/u'' [(''HttpEPCookie'', ''42'')] None) done1"
  obtain s' where g: "got_headers_handler 112 ''43'' 2 ?r = Inr s'"
    by (simp add: done1_def get1_def srv_u_def server_defs expiry_defs)
  have d: "handlers ?r = Some [(''/u'', 7)] \<and> map_of [(''/u'', 7::nat)] (msg_path (msgs ?r 2)) = Some 7 \<and>
       kms_http_ep_server_manage_cookie_session 112 ''43'' 7 2 (msg_path (msgs ?r 2)) ?r = Inr (True, ?r) \<and>
       got_headers_handler 112 ''43'' 2 ?r = Inr s'"
    using g by (simp add: done1_def get1_def srv_u_def server_defs expiry_defs)
  have t: "timeouts (remove_cookie_timeout 7 ?r) = []"
    using done1_facts
    by (simp add: remove_cookie_timeout_def request_started_def g_source_remove_def upd_ep_def)
  from expiry_timer_model [of ?r 7 112 2, THEN conjunct2, THEN conjunct2, THEN conjunct2,
      rule_format, OF d] t
  have "KEY_TIMEOUT_ID (httpeps s' 7) = None \<and> timeouts s' = []" by simp
  with g have D: "\<exists>s'. got_headers_handler 112 ''43'' 2 ?r = Inr s' \<and>
         KEY_TIMEOUT_ID (httpeps s' 7) = None \<and> timeouts s' = []" by blast
  from A B done1_facts C D show ?thesis by simp
qed

section \<open>The content start of \<open>find_content_part\<close>\<close>

lemma memchr_from_range:
  "memchr_from xs ch n p = Inr (Some q) \<Longrightarrow> p \<le> q \<and> q < p + int (length xs) \<and> xs ! nat (q - p) = ch"
proof (induction xs arbitrary: n p)
  case Nil
  then show ?case by (simp split: if_splits)
next
  case (Cons x xs)
  show ?case
  proof (cases "n = 0 \<or> x = ch")
    case True
    with Cons.prems show ?thesis by (auto split: if_splits)
  next
    case False
    with Cons.prems have "memchr_from xs ch (n - 1) (p + 1) = Inr (Some q)" by simp
    from Cons.IH [OF this] have "p + 1 \<le> q" "q < p + 1 + int (length xs)"
      "xs ! nat (q - (p + 1)) = ch" by simp_all
    moreover from \<open>p + 1 \<le> q\<close> have "nat (q - p) = Suc (nat (q - (p + 1)))" by simp
    ultimately show ?thesis by simp
  qed
qed

lemma memchr_range:
  assumes "memchr mem s ch n = Inr (Some q)"
  shows "0 \<le> s \<and> s \<le> q \<and> q < int (length mem) \<and> rd mem q = Inr ch"
proof -
  from assms have s: "0 \<le> s" and m: "memchr_from (drop (nat s) mem) ch n s = Inr (Some q)"
    by (auto simp: memchr_def split: if_splits)
  from memchr_from_range [OF m] have a: "s \<le> q" and b: "q < s + int (length (drop (nat s) mem))"
    and c: "drop (nat s) mem ! nat (q - s) = ch" by simp_all
  from a b s have lt: "q < int (length mem)" by (cases "nat s \<le> length mem") simp_all
  from s a lt have "nat s + nat (q - s) = nat q" "nat s + nat (q - s) < length mem" by simp_all
  with c have "mem ! nat q = ch" by (metis nth_drop nat_le_linear less_imp_le_nat le_add1 order_trans)
  with s a lt show ?thesis by (simp add: rd_def)
qed

lemma header_loop_Inr:
  "header_loop mem cs c = Inr r \<Longrightarrow> (\<And>p. c = Some p \<Longrightarrow> p < int (length mem) \<and> rd mem p = Inr CR) \<Longrightarrow>
   rd mem (r - 4) = Inr CR \<and> blank_line_at mem (r - 4) = Inr True"
proof (induction mem cs c rule: header_loop.induct)
  case (1 mem content_start c)
  from "1.prems"(1) obtain p where c: "c = Some p"
    by (cases c) (simp_all add: header_loop.simps [of mem content_start None])
  from "1.prems"(2) [OF c] have lt: "p < int (length mem)" and cr: "rd mem p = Inr CR" by simp_all
  show ?case
  proof (cases "blank_line_at mem p")
    case (Inl e)
    with "1.prems"(1) c lt show ?thesis
      by (simp add: header_loop.simps [of mem content_start "Some p"])
  next
    case (Inr found)
    show ?thesis
    proof (cases found)
      case True
      with Inr "1.prems"(1) c lt have "r = p + 4"
        by (simp add: header_loop.simps [of mem content_start "Some p"])
      with Inr True cr show ?thesis by simp
    next
      case False
      with Inr "1.prems"(1) c lt obtain c' where
        m: "memchr mem (p + 4) CR (int (length mem) - (p + 2)) = Inr c'"
        and h: "header_loop mem content_start c' = Inr r"
        by (auto simp: header_loop.simps [of mem content_start "Some p"] split: sum.splits)
      have "q < int (length mem) \<and> rd mem q = Inr CR" if "c' = Some q" for q
        using memchr_range [of mem "p + 4" CR "int (length mem) - (p + 2)" q] m that by simp
      moreover from False have "found = False" by simp
      ultimately show ?thesis using "1.IH" [OF c lt Inr _ m h] by blast
    qed
  qed
qed

text \<open>
  What \<open>find_content_part\<close> does keep: when it returns with a content start, the four
  bytes before that start are CR LF CR LF, inside the chunk. A chunk with a part boundary
  and no blank line after it never returns.
\<close>

theorem find_content_part_start_after_blank_line:
  assumes "find_content_part mem boundary = Inr (Some cs, ce)"
  shows "4 \<le> cs \<and> cs \<le> int (length mem) \<and>
         rd mem (cs - 4) = Inr CR \<and> rd mem (cs - 3) = Inr LF \<and>
         rd mem (cs - 2) = Inr CR \<and> rd mem (cs - 1) = Inr LF"
proof -
  from assms obtain b0 cs0 c0 where
    "memchr mem 0 DASH (int (length mem)) = Inr b0"
    and "boundary_loop mem boundary (None, None) b0 = Inr (Some cs0, ce)"
    and m: "memchr mem cs0 CR (int (length mem) - cs0) = Inr c0"
    and h: "header_loop mem cs0 c0 = Inr cs"
    by (auto simp: find_content_part_def ebind_eq_Inr split: option.splits prod.splits)
  have "q < int (length mem) \<and> rd mem q = Inr CR" if "c0 = Some q" for q
    using memchr_range [of mem cs0 CR "int (length mem) - cs0" q] m that by simp
  from header_loop_Inr [OF h this] have cr: "rd mem (cs - 4) = Inr CR"
    and bl: "blank_line_at mem (cs - 4) = Inr True" by simp_all
  from bl have a: "rd mem (cs - 3) = Inr LF" and b: "rd mem (cs - 2) = Inr CR"
    and c: "rd mem (cs - 1) = Inr LF"
    by (auto simp: blank_line_at_def ebind_eq_Inr algebra_simps split: if_splits)
  from cr c have "4 \<le> cs" "cs \<le> int (length mem)"
    by (auto simp: rd_def split: if_splits)
  with cr a b c show ?thesis by simp
qed

section \<open>Where the code departs from its claims\<close>

text \<open>
  C1. \<open>g_str_has_prefix ("multipart/", content_type)\<close> asks whether \<open>"multipart/"\<close>
  begins with the content type, so it fails for \<open>multipart/form-data\<close>: a POST of that
  type with no boundary gets status 200 and both handlers, and one that names a boundary
  never has it stored, so that the chunk handler pushes the framing with the payload.
\<close>

theorem multipart_boundary_not_required:
  "\<not> g_str_has_prefix ''multipart/'' ''multipart/form-data'' \<and>
   got_headers_handler 100 ''42'' 1 post_multipart = Inr post_multipart1 \<and>
   status_code (msgs post_multipart1 1) = SOUP_STATUS_OK \<and>
   msg_handlers (msgs post_multipart1 1)
     = [(1, CB_got_chunk_handler 7), (2, CB_finished_post_processing 7)] \<and>
   KEY_BOUNDARY (msgs post_multipart1 1) = None \<and>
   got_headers_handler 100 ''42'' 1 post_xyz = Inr post_xyz1 \<and>
   KEY_BOUNDARY (msgs post_xyz1 1) = None \<and>
   ep_pushed (httpeps (result_of (got_chunk_handler 1 body_xyz 7 post_xyz1)) 7) = [body_xyz]"
proof -
  have a: "\<not> g_str_has_prefix ''multipart/'' ''multipart/form-data''"
    by (simp add: g_str_has_prefix_def)
  have b: "got_headers_handler 100 ''42'' 1 post_multipart = Inr post_multipart1"
    by (simp add: post_multipart1_def post_multipart_def srv_u_def server_defs)
  have c: "status_code (msgs post_multipart1 1) = SOUP_STATUS_OK"
    "msg_handlers (msgs post_multipart1 1)
       = [(1, CB_got_chunk_handler 7), (2, CB_finished_post_processing 7)]"
    "KEY_BOUNDARY (msgs post_multipart1 1) = None"
    by (simp_all add: post_multipart1_def post_multipart_def srv_u_def server_defs)
  have d: "got_headers_handler 100 ''42'' 1 post_xyz = Inr post_xyz1"
    by (simp add: post_xyz1_def post_xyz_def srv_u_def server_defs)
  have e: "KEY_BOUNDARY (msgs post_xyz1 1) = None"
    by (simp add: post_xyz1_def post_xyz_def srv_u_def server_defs)
  have f: "ep_pushed (httpeps post_xyz1 7) = []"
    by (simp add: post_xyz1_def post_xyz_def srv_u_def server_defs)
  from e f have g: "ep_pushed (httpeps (result_of (got_chunk_handler 1 body_xyz 7 post_xyz1)) 7) = [body_xyz]"
    by (simp add: got_chunk_handler_def result_of_def upd_ep_def)
  from a b c d e g show ?thesis by simp
qed

text \<open>
  C2. With boundary \<open>abc\<close>, the line \<open>--zzz--x\<close> does not spell the boundary, and
  \<open>find_content_part\<close> sets \<open>content_end\<close> for it all the same (to offset 2, the
  start of the CRLF before it).
\<close>

theorem find_content_part_any_dashes:
  "find_content_part (''ab'' @ [CR, LF] @ ''--zzz--x'' @ [NUL]) ''abc'' = Inr (None, Some 2)"
  by code_simp

text \<open>
  C9. \<open>find_content_part\<close> reads outside the chunk: through the \<open>NULL\<close> that
  \<open>memchr\<close> returns when no carriage return follows the content start; past the end,
  when \<open>g_str_has_prefix\<close> takes the length of a chunk position with no \<open>NUL\<close>
  after it; before the start, at \<open>b[-2]\<close> when the dashes stand at offset 1 after
  a line feed; and past the end again, when the header loop's second \<open>memchr\<close> scans
  \<open>end - (c + 2)\<close> bytes from \<open>c + 4\<close>.
\<close>

theorem find_content_part_reads_outside:
  "find_content_part (''--abc'' @ [CR, LF] @ ''xyz'' @ [NUL]) ''abc'' = Inl NullDeref \<and>
   find_content_part (''--abc'' @ [CR, LF] @ ''xyz'') ''abc'' = Inl OutOfBounds \<and>
   find_content_part ([LF] @ ''--abc--'' @ [CR, LF] @ [NUL]) ''abc'' = Inl OutOfBounds \<and>
   find_content_part (''--abc'' @ [CR, LF] @ ''x'' @ [CR, LF] @ ''yz'' @ [NUL]) ''abc'' = Inl OutOfBounds"
  by code_simp

text \<open>
  C8. A \<open>PUT\<close> on a registered path is bound to the endpoint and rejected with 405;
  no finished-handler id was stored on it, and \<open>destroy_pending_message\<close>, run when
  the path is unregistered or the next request is bound, dereferences that id. The same
  holds for the got-chunk handler id of a POST that is rejected with 406 for its missing
  boundary.
\<close>

theorem teardown_reads_unset_handler_id:
  "got_headers_handler 100 ''42'' 1 put_req = Inr put1 \<and>
   status_code (msgs put1 1) = SOUP_STATUS_METHOD_NOT_ALLOWED \<and>
   KEY_MESSAGE (httpeps put1 7) = Some 1 \<and>
   KEY_FINISHED_HANDLER_ID (msgs put1 1) = None \<and>
   destroy_pending_message 1 put1 = Inl NullDeref \<and>
   kms_http_ep_server_unregister_end_point_impl ''/u'' False put1 = Inl NullDeref \<and>
   kms_http_ep_server_unregister_end_point_impl ''/u'' True put1 = Inl NullDeref \<and>
   got_headers_handler 110 ''43'' 2
     (request_started 2 (new_request ''GET'' ''/u'' [(''HttpEPCookie'', ''42'')] None) put1)
     = Inl NullDeref \<and>
   got_headers_handler 100 ''42'' 1 post_req_mp = Inr post1_mp \<and>
   status_code (msgs post1_mp 1) = SOUP_STATUS_NOT_ACCEPTABLE \<and>
   KEY_MESSAGE (httpeps post1_mp 7) = Some 1 \<and>
   KEY_GOT_CHUNK_HANDLER_ID (msgs post1_mp 1) = None \<and>
   destroy_pending_message 1 post1_mp = Inl NullDeref"
proof -
  have a: "got_headers_handler 100 ''42'' 1 put_req = Inr put1"
    by (simp add: put1_def put_req_def srv_u_def server_defs)
  have b: "status_code (msgs put1 1) = SOUP_STATUS_METHOD_NOT_ALLOWED"
    "KEY_MESSAGE (httpeps put1 7) = Some 1" "KEY_FINISHED_HANDLER_ID (msgs put1 1) = None"
    "destroy_pending_message 1 put1 = Inl NullDeref"
    "kms_http_ep_server_unregister_end_point_impl ''/u'' False put1 = Inl NullDeref"
    "kms_http_ep_server_unregister_end_point_impl ''/u'' True put1 = Inl NullDeref"
    by (simp_all add: put1_def put_req_def srv_u_def server_defs)
  have c: "got_headers_handler 110 ''43'' 2
     (request_started 2 (new_request ''GET'' ''/u'' [(''HttpEPCookie'', ''42'')] None) put1)
     = Inl NullDeref"
    by (simp add: put1_def put_req_def srv_u_def server_defs)
  have d: "got_headers_handler 100 ''42'' 1 post_req_mp = Inr post1_mp"
    by (simp add: post1_mp_def post_req_mp_def srv_u_def server_defs)
  have e: "status_code (msgs post1_mp 1) = SOUP_STATUS_NOT_ACCEPTABLE"
    "KEY_MESSAGE (httpeps post1_mp 7) = Some 1" "KEY_GOT_CHUNK_HANDLER_ID (msgs post1_mp 1) = None"
    "destroy_pending_message 1 post1_mp = Inl NullDeref"
    by (simp_all add: post1_mp_def post_req_mp_def srv_u_def server_defs)
  from a b c d e show ?thesis by simp
qed

text \<open>
  C5. With a lifetime and an idle timeout of 5000000 s, a transfer that ends 4999990 s
  before the cookie expires arms the timer with 705022704 ms, which is 4999990000 modulo
  \<open>2 ^ 32\<close>.
\<close>

theorem expiry_interval_wraps:
  "got_headers_handler 100 ''42'' 1 (request_started 1 (new_request ''GET'' ''/u'' [] None) srv_big)
     = Inr get_big \<and>
   map_option cookie_expires (KEY_COOKIE (httpeps get_big 7)) = Some (Some 5000100) \<and>
   KEY_PARAM_TIMEOUT (httpeps get_big 7) = Some 5000000 \<and>
   soup_message_finished 110 1 get_big = Inr done_big \<and>
   timeouts done_big = [(4, 705022704, 1)] \<and>
   1000 * min (5000100 - 110) (5000000::int) = 4999990000"
proof -
  have a: "got_headers_handler 100 ''42'' 1 (request_started 1 (new_request ''GET'' ''/u'' [] None) srv_big)
     = Inr get_big"
    by (simp add: get_big_def srv_big_def server_defs)
  have b: "map_option cookie_expires (KEY_COOKIE (httpeps get_big 7)) = Some (Some 5000100)"
    "KEY_PARAM_TIMEOUT (httpeps get_big 7) = Some 5000000"
    by (simp_all add: get_big_def srv_big_def server_defs)
  have c: "soup_message_finished 110 1 get_big = Inr done_big"
    by (simp add: done_big_def get_big_def srv_big_def server_defs expiry_defs)
  have d: "timeouts done_big = [(4, 705022704, 1)]"
    by (simp add: done_big_def get_big_def srv_big_def server_defs expiry_defs)
  from a b c d show ?thesis by simp
qed

text \<open>
  C4. With the lifetime 4294967295 the \<open>max_age\<close> that \<open>soup_cookie_new\<close>
  receives is \<open>-1\<close>, and the cookie of the session has no expiry date.
  \<open>cookie_has_expired\<close> hands that \<open>NULL\<close> date to \<open>soup_date_is_past\<close>,
  which answers \<open>TRUE\<close>: one second later a request that presents this very cookie,
  name and value, is rejected with 400, though the cookie has no date that could have
  passed.
\<close>

theorem session_cookie_without_date_rejected:
  "guint_to_int 4294967295 = - 1 \<and>
   got_headers_handler 100 ''42'' 1 (request_started 1 (new_request ''GET'' ''/u'' [] None) srv_forever)
     = Inr get_forever \<and>
   status_code (msgs get_forever 1) = SOUP_STATUS_OK \<and>
   (''Set-Cookie'', Set_Cookie_Header cookie_forever) \<in> set (response_headers (msgs get_forever 1)) \<and>
   KEY_COOKIE (httpeps get_forever 7) = Some cookie_forever \<and>
   cookie_name cookie_forever = ''HttpEPCookie'' \<and> cookie_value cookie_forever = ''42'' \<and>
   cookie_max_age cookie_forever = - 1 \<and> cookie_expires cookie_forever = None \<and>
   request_cookies (msgs get_forever2 2) = [(''HttpEPCookie'', ''42'')] \<and>
   cookie_has_expired 101 cookie_forever \<and>
   kms_http_ep_server_manage_cookie_session 101 ''43'' 7 2 ''/u'' get_forever2
     = Inr (False, get_forever2) \<and>
   got_headers_handler 101 ''43'' 2 get_forever2
     = Inr (soup_message_set_status 2 SOUP_STATUS_BAD_REQUEST get_forever2)"
proof -
  have a: "guint_to_int 4294967295 = - 1"
    by (simp add: guint_to_int_def)
  have b: "got_headers_handler 100 ''42'' 1
       (request_started 1 (new_request ''GET'' ''/u'' [] None) srv_forever) = Inr get_forever"
    by (simp add: get_forever_def srv_forever_def server_defs)
  have c: "status_code (msgs get_forever 1) = SOUP_STATUS_OK"
    "(''Set-Cookie'', Set_Cookie_Header cookie_forever) \<in> set (response_headers (msgs get_forever 1))"
    "KEY_COOKIE (httpeps get_forever 7) = Some cookie_forever"
    by (simp_all add: get_forever_def srv_forever_def cookie_forever_def server_defs)
  have d: "cookie_name cookie_forever = ''HttpEPCookie''" "cookie_value cookie_forever = ''42''"
    "cookie_max_age cookie_forever = - 1" "cookie_expires cookie_forever = None"
    by (simp_all add: cookie_forever_def soup_cookie_new_def COOKIE_NAME_def)
  have e: "request_cookies (msgs get_forever2 2) = [(''HttpEPCookie'', ''42'')]"
    "handlers get_forever2 = Some [(''/u'', 7)]" "msg_path (msgs get_forever2 2) = ''/u''"
    "KEY_COOKIE (httpeps get_forever2 7) = Some cookie_forever"
    by (simp_all add: get_forever2_def get_forever_def srv_forever_def cookie_forever_def server_defs)
  from d have f: "cookie_has_expired 101 cookie_forever"
    by (simp add: cookie_has_expired_def soup_date_is_past_def)
  from e f have g: "kms_http_ep_server_manage_cookie_session 101 ''43'' 7 2 ''/u'' get_forever2
     = Inr (False, get_forever2)"
    by (simp add: kms_http_ep_server_manage_cookie_session_def kms_http_ep_server_check_cookie_def)
  from e g have h: "got_headers_handler 101 ''43'' 2 get_forever2
     = Inr (soup_message_set_status 2 SOUP_STATUS_BAD_REQUEST get_forever2)"
    by (simp add: got_headers_handler_def g_hash_table_lookup_def Let_def)
  from a b c d e(1) f g h show ?thesis by simp
qed

text \<open>
  C6. After \<open>kms_http_ep_server_stop_impl\<close> the handler table is \<open>NULL\<close>, and
  \<open>kms_http_ep_server_register_handler\<close> does not test for that: its lookup gives
  \<open>NULL\<close>, its insertion does nothing, and it reports success. So the registration of
  endpoint 8 returns the URL \<open>/v\<close>, a second registration with the same path returns
  it again for endpoint 9, no lookup of \<open>/v\<close> finds an endpoint, and a request for
  \<open>/v\<close> is answered with 404.
\<close>

theorem registration_on_stopped_server:
  "handlers srv_stopped = None \<and>
   kms_http_ep_server_register_handler ''/v'' 8 srv_stopped = (True, srv_stopped) \<and>
   kms_http_ep_server_register_handler ''/v'' 9 srv_stopped = (True, srv_stopped) \<and>
   kms_http_ep_server_register_end_point_impl 8 True ''v'' 60 5 srv_stopped = (Some ''/v'', srv_stopped1) \<and>
   fst (kms_http_ep_server_register_end_point_impl 9 True ''v'' 60 5 srv_stopped1) = Some ''/v'' \<and>
   g_hash_table_lookup (handlers srv_stopped1) ''/v'' = None \<and>
   kms_http_ep_server_unregister_end_point_impl ''/v'' False srv_stopped1 = Inr (False, srv_stopped1) \<and>
   got_headers_handler 100 ''42'' 1 (request_started 1 (new_request ''GET'' ''/v'' [] None) srv_stopped1)
     = Inr (soup_message_set_status 1 SOUP_STATUS_NOT_FOUND
              (request_started 1 (new_request ''GET'' ''/v'' [] None) srv_stopped1))"
proof -
  have a: "handlers srv_stopped = None"
    by (simp add: srv_stopped_def kms_http_ep_server_stop_impl_def
        kms_http_ep_server_destroy_handlers_def new_server_def Let_def)
  have b: "kms_http_ep_server_register_handler ''/v'' e srv_stopped = (True, srv_stopped)" for e
    by (rule register_handler_no_table [OF a])
  have c: "kms_http_ep_server_register_end_point_impl 8 True ''v'' 60 5 srv_stopped = (Some ''/v'', srv_stopped1)"
    by (simp add: srv_stopped1_def kms_http_ep_server_register_end_point_impl_def b Let_def)
  have d: "handlers srv_stopped1 = None"
    using a
    by (simp add: srv_stopped1_def kms_http_ep_server_register_end_point_impl_def b Let_def
        add_guint_param_timeout_def add_guint_param_lifetime_def)
  have e: "fst (kms_http_ep_server_register_end_point_impl 9 True ''v'' 60 5 srv_stopped1) = Some ''/v''"
    by (simp add: kms_http_ep_server_register_end_point_impl_def register_handler_no_table [OF d] Let_def)
  from d have f: "g_hash_table_lookup (handlers srv_stopped1) ''/v'' = None"
    by (simp add: g_hash_table_lookup_def)
  from d have g: "kms_http_ep_server_unregister_end_point_impl ''/v'' False srv_stopped1
      = Inr (False, srv_stopped1)"
    by (simp add: kms_http_ep_server_unregister_end_point_impl_def)
  from d have h: "got_headers_handler 100 ''42'' 1
       (request_started 1 (new_request ''GET'' ''/v'' [] None) srv_stopped1)
     = Inr (soup_message_set_status 1 SOUP_STATUS_NOT_FOUND
              (request_started 1 (new_request ''GET'' ''/v'' [] None) srv_stopped1))"
    by (simp add: got_headers_handler_def g_hash_table_lookup_def request_started_def Let_def)
  from a b [of 8] b [of 9] c e f g h show ?thesis by simp
qed

text \<open>
  C10. A first \<open>POST /u\<close> with no \<open>Content-Type\<close> header passes the session
  stage. \<open>kms_http_ep_server_post_handler\<close> sets the status 406 and goes to
  \<open>end:\<close>, where it reads \<open>params\<close>, which no statement has assigned.
  \<open>got_headers_handler\<close> emits \<open>action-requested\<close> only after that call has
  returned.
\<close>

theorem post_without_content_type_reads_params:
  "msg_method (msgs post_req 1) = SOUP_METHOD_POST \<and>
   request_content_type (msgs post_req 1) = None \<and>
   g_hash_table_lookup (handlers post_req) (msg_path (msgs post_req 1)) = Some 7 \<and>
   (\<exists>s1. kms_http_ep_server_manage_cookie_session 100 ''42'' 7 1 ''/u'' post_req = Inr (True, s1)) \<and>
   kms_http_ep_server_post_handler 1 7 post_req = Inl UninitialisedRead \<and>
   got_headers_handler 100 ''42'' 1 post_req = Inl UninitialisedRead"
proof -
  have a: "g_hash_table_lookup (handlers post_req) (msg_path (msgs post_req 1)) = Some 7"
    using post_req_facts by (simp add: g_hash_table_lookup_def)
  have b: "kms_http_ep_server_post_handler 1 7 post_req = Inl UninitialisedRead"
    using post_req_facts(5) by (rule post_handler_no_content_type)
  have c: "got_headers_handler 100 ''42'' 1 post_req = Inl UninitialisedRead"
    by (simp add: post_req_def srv_u_def server_defs)
  from post_req_facts a b c show ?thesis by simp
qed

end
